theory Spec2Isabelle
  imports Complex_Main "HOL-Library.Multiset" "HOL-Library.Word"
    "HOL-Library.Char_ord" "HOL-Library.List_Lexorder"
begin

unbundle bit_operations_syntax

section \<open>Go values used by the bot\<close>

text \<open>
  Go strings are byte sequences; \<^typ>\<open>string\<close> is a list of bytes, so a non-ASCII
  literal of the source is written as its UTF-8 bytes. Go's \<open>int\<close> is 64 bits wide on
  the build target (linux/amd64): arithmetic results are wrapped by \<open>wrap64\<close>.
\<close>

definition wrap64 :: "int \<Rightarrow> int" where
  "wrap64 x = (x + 2 ^ 63) mod 2 ^ 64 - 2 ^ 63"

text \<open>Run-time panics of the Go code are values of the model.\<close>

datatype panic = DivideByZero | SliceBounds

text \<open>Go's \<open>/\<close> on \<open>int\<close>: truncates towards zero, panics on a zero divisor.\<close>

definition go_div :: "int \<Rightarrow> int \<Rightarrow> panic + int" where
  "go_div a b = (if b = 0 then Inl DivideByZero
                 else Inr (wrap64 (sgn a * sgn b * (\<bar>a\<bar> div \<bar>b\<bar>))))"

text \<open>\<open>xs[start:end]\<close>: panics unless \<open>0 \<le> start \<le> end \<le> len\<close>.\<close>

definition go_slice :: "'a list \<Rightarrow> int \<Rightarrow> int \<Rightarrow> panic + 'a list" where
  "go_slice xs start endIdx =
     (if 0 \<le> start \<and> start \<le> endIdx \<and> endIdx \<le> int (length xs)
      then Inr (take (nat endIdx - nat start) (drop (nat start) xs))
      else Inl SliceBounds)"

text \<open>The verb \<open>%d\<close> of \<open>fmt.Sprintf\<close>: decimal digits, a minus sign when negative.\<close>

definition digit_char :: "nat \<Rightarrow> char" where
  "digit_char d = ''0123456789'' ! d"

fun dec_digits :: "nat \<Rightarrow> string" where
  "dec_digits n = (if n < 10 then [digit_char n]
                   else dec_digits (n div 10) @ [digit_char (n mod 10)])"

declare dec_digits.simps [simp del]

definition fmt_d :: "int \<Rightarrow> string" where
  "fmt_d i = (if i < 0 then CHR ''-'' # dec_digits (nat (- i)) else dec_digits (nat i))"

section \<open>Search sessions and pagination (internal/telegram/bot.go)\<close>

record Book =
  ID :: string
  Title :: string
  Author :: string

record searchSession =
  books :: "Book list"
  page :: int
  pageSize :: int

text \<open>An inline keyboard button carrying callback data.\<close>

record InlineKeyboardButton =
  Text :: string
  CallbackData :: string

definition NewInlineKeyboardButtonData :: "string \<Rightarrow> string \<Rightarrow> InlineKeyboardButton" where
  "NewInlineKeyboardButtonData t d = \<lparr>Text = t, CallbackData = d\<rparr>"

definition defaultPageSize :: int where
  "defaultPageSize = 10"

definition cbBookPrefix :: string where
  "cbBookPrefix = ''book:''"

definition cbPagePrefix :: string where
  "cbPagePrefix = ''page:''"

definition cbDownloadPrefix :: string where
  "cbDownloadPrefix = ''dl:''"

type_synonym sessions = "int \<rightharpoonup> searchSession"

definition storeSession :: "sessions \<Rightarrow> int \<Rightarrow> Book list \<Rightarrow> sessions" where
  "storeSession ss chatID bs =
     ss(chatID := Some \<lparr>books = bs, page = 0, pageSize = defaultPageSize\<rparr>)"

definition clampPage :: "int \<Rightarrow> int \<Rightarrow> int" where
  "clampPage p pages =
     (if pages \<le> 0 then 0
      else if p < 0 then 0
      else if p \<ge> pages then wrap64 (pages - 1)
      else p)"

definition totalPages :: "int \<Rightarrow> int \<Rightarrow> panic + int" where
  "totalPages tot ps =
     (if tot = 0 then Inr 0
      else go_div (wrap64 (wrap64 (tot + ps) - 1)) ps)"

text \<open>The literals of \<open>buildPage\<close>, as UTF-8 bytes.\<close>

definition arrow_left :: string where
  "arrow_left = [CHR 0xE2, CHR 0xAC, CHR 0x85, CHR 0xEF, CHR 0xB8, CHR 0x8F]"

definition arrow_right :: string where
  "arrow_right = [CHR 0xE2, CHR 0x9E, CHR 0xA1, CHR 0xEF, CHR 0xB8, CHR 0x8F]"

definition bullet :: string where
  "bullet = [CHR 0xE2, CHR 0x80, CHR 0xA2]"

definition found_books_prefix :: string where
  "found_books_prefix = [CHR 0xF0, CHR 0x9F, CHR 0x93, CHR 0x9A] @ '' '' @ [CHR 0xD0, CHR 0x9D, CHR 0xD0, CHR 0xB0, CHR 0xD0, CHR 0xB9, CHR 0xD0, CHR 0xB4, CHR 0xD0, CHR 0xB5, CHR 0xD0, CHR 0xBD, CHR 0xD0, CHR 0xBE] @ '' '' @ [CHR 0xD0, CHR 0xBA, CHR 0xD0, CHR 0xBD, CHR 0xD0, CHR 0xB8, CHR 0xD0, CHR 0xB3] @ '': ''"

definition page_word :: string where
  "page_word = [CHR 0x0A, CHR 0xD0, CHR 0xA1, CHR 0xD1, CHR 0x82, CHR 0xD1, CHR 0x80, CHR 0xD0, CHR 0xB0, CHR 0xD0, CHR 0xBD, CHR 0xD0, CHR 0xB8, CHR 0xD1, CHR 0x86, CHR 0xD0, CHR 0xB0] @ '' ''"

definition bookRow :: "Book \<Rightarrow> InlineKeyboardButton list" where
  "bookRow book =
     [NewInlineKeyboardButtonData (Title book @ '' - '' @ Author book) (cbBookPrefix @ ID book)]"

definition prevButton :: "int \<Rightarrow> InlineKeyboardButton" where
  "prevButton p = NewInlineKeyboardButtonData arrow_left (cbPagePrefix @ fmt_d (wrap64 (p - 1)))"

definition centerButton :: "int \<Rightarrow> int \<Rightarrow> InlineKeyboardButton" where
  "centerButton p pages =
     NewInlineKeyboardButtonData
       (bullet @ '' '' @ fmt_d (wrap64 (p + 1)) @ ''/'' @ fmt_d pages @ '' '' @ bullet)
       (cbPagePrefix @ fmt_d p)"

definition nextButton :: "int \<Rightarrow> InlineKeyboardButton" where
  "nextButton p = NewInlineKeyboardButtonData arrow_right (cbPagePrefix @ fmt_d (wrap64 (p + 1)))"

definition navRow :: "int \<Rightarrow> int \<Rightarrow> InlineKeyboardButton list" where
  "navRow p pages =
     (if p > 0 then [prevButton p] else [])
     @ [centerButton p pages]
     @ (if p < wrap64 (pages - 1) then [nextButton p] else [])"

definition pageText :: "int \<Rightarrow> int \<Rightarrow> int \<Rightarrow> string" where
  "pageText tot p pages =
     found_books_prefix @ fmt_d tot @ page_word @ fmt_d (wrap64 (p + 1)) @ ''/'' @ fmt_d pages"

text \<open>
  \<open>buildPage\<close> returns the message text, the keyboard rows and the found flag; the
  page written back to the session is returned as the new session map.
\<close>

definition buildPage ::
  "sessions \<Rightarrow> int \<Rightarrow> int \<Rightarrow>
     panic + ((string \<times> InlineKeyboardButton list list \<times> bool) \<times> sessions)" where
  "buildPage ss chatID p0 =
     (case ss chatID of
        None \<Rightarrow> Inr (('''', [], False), ss)
      | Some session \<Rightarrow>
          (if length (books session) = 0 then Inr (('''', [], False), ss)
           else
             (let tot = int (length (books session)) in
              (case totalPages tot (pageSize session) of
                 Inl e \<Rightarrow> Inl e
               | Inr pages \<Rightarrow>
                   (let p = clampPage p0 pages;
                        start = wrap64 (p * pageSize session);
                        end0 = wrap64 (start + pageSize session);
                        endIdx = (if end0 > tot then tot else end0)
                    in (case go_slice (books session) start endIdx of
                          Inl e \<Rightarrow> Inl e
                        | Inr shown \<Rightarrow>
                            (let rows = map bookRow shown;
                                 rows' = (if pages > 1 then rows @ [navRow p pages] else rows)
                             in Inr ((pageText tot p pages, rows', True),
                                     ss(chatID := Some (session\<lparr>page := p\<rparr>))))))))))"

text \<open>A session of 25 results, used to run the pagination on the example of the specification.\<close>

definition sampleBook :: "nat \<Rightarrow> Book" where
  "sampleBook i = \<lparr>ID = fmt_d (int i), Title = ''T'', Author = ''A''\<rparr>"

definition sampleSessions :: sessions where
  "sampleSessions = storeSession Map.empty 7 (map sampleBook [0..<25])"

section \<open>Catalog search (service.FlibustaClient.Search)\<close>













section \<open>Go's string library, as far as the bot uses it\<close>

text \<open>
  The functions of package \<open>strings\<close> have a fast path for ASCII bytes and fall back to
  the Unicode tables when they meet a byte \<open>\<ge> 0x80\<close> (\<open>utf8.RuneSelf\<close>). The fast path is
  modelled as it is written; the Unicode tables are not part of the repository and are
  a parameter of the model, a record of the four fallback functions.
\<close>

record unicode =
  mapToUpper :: "string \<Rightarrow> string"
  trimFuncIsSpace :: "string \<Rightarrow> string"
  trimRightFuncIsSpace :: "string \<Rightarrow> string"
  equalFoldUnicode :: "string \<Rightarrow> string \<Rightarrow> bool"

definition isASCII :: "char \<Rightarrow> bool" where
  "isASCII c = ((of_char c :: nat) < 128)"

definition asciiSpace :: "char \<Rightarrow> bool" where
  "asciiSpace c = (c \<in> set [CHR 0x09, CHR 0x0A, CHR 0x0B, CHR 0x0C, CHR 0x0D, CHR '' ''])"

definition lowerLetters :: string where
  "lowerLetters = ''abcdefghijklmnopqrstuvwxyz''"

definition upperLetters :: string where
  "upperLetters = ''ABCDEFGHIJKLMNOPQRSTUVWXYZ''"

text \<open>\<open>c -= 'a' - 'A'\<close> for \<open>'a' <= c <= 'z'\<close>.\<close>

definition asciiUpper :: "char \<Rightarrow> char" where
  "asciiUpper c = (case map_of (zip lowerLetters upperLetters) c of Some u \<Rightarrow> u | None \<Rightarrow> c)"

definition ToUpper :: "unicode \<Rightarrow> string \<Rightarrow> string" where
  "ToUpper U s = (if list_all isASCII s then map asciiUpper s else mapToUpper U s)"

text \<open>\<open>strings.TrimSpace\<close>: the scan from the left, then the scan from the right.\<close>

fun trimRightRev :: "unicode \<Rightarrow> string \<Rightarrow> string" where
  "trimRightRev U [] = []"
| "trimRightRev U (c # cs) =
     (if \<not> isASCII c then trimRightFuncIsSpace U (rev (c # cs))
      else if asciiSpace c then trimRightRev U cs
      else rev (c # cs))"

fun TrimSpace :: "unicode \<Rightarrow> string \<Rightarrow> string" where
  "TrimSpace U [] = []"
| "TrimSpace U (c # cs) =
     (if \<not> isASCII c then trimFuncIsSpace U (c # cs)
      else if asciiSpace c then TrimSpace U cs
      else trimRightRev U (rev (c # cs)))"

declare trimRightRev.simps [simp del] TrimSpace.simps [simp del]

text \<open>\<open>strings.EqualFold\<close>: bytewise over ASCII, the Unicode loop from the first
  non-ASCII byte on.\<close>

fun EqualFold :: "unicode \<Rightarrow> string \<Rightarrow> string \<Rightarrow> bool" where
  "EqualFold U [] t = (t = [])"
| "EqualFold U (x # xs) [] = False"
| "EqualFold U (x # xs) (y # ys) =
     (if \<not> isASCII x \<or> \<not> isASCII y then equalFoldUnicode U (x # xs) (y # ys)
      else if x = y then EqualFold U xs ys
      else if asciiUpper x = asciiUpper y then EqualFold U xs ys
      else False)"

declare EqualFold.simps [simp del]

text \<open>\<open>strings.HasPrefix\<close>, \<open>strings.TrimPrefix\<close> and \<open>strings.Contains\<close>.\<close>

fun HasPrefix :: "string \<Rightarrow> string \<Rightarrow> bool" where
  "HasPrefix s [] = True"
| "HasPrefix [] (p # ps) = False"
| "HasPrefix (c # cs) (p # ps) = (c = p \<and> HasPrefix cs ps)"

definition TrimPrefix :: "string \<Rightarrow> string \<Rightarrow> string" where
  "TrimPrefix s p = (if HasPrefix s p then drop (length p) s else s)"

fun Contains :: "string \<Rightarrow> string \<Rightarrow> bool" where
  "Contains [] sub = (sub = [])"
| "Contains (c # cs) sub = (HasPrefix (c # cs) sub \<or> Contains cs sub)"

section \<open>Regular expressions (package regexp)\<close>

text \<open>
  The two patterns of the bot are written as syntax trees and run by a backtracking
  matcher, which gives the leftmost match that prefers the first alternative and the
  longer repetition, as Go's \<open>regexp\<close> does. Go decodes UTF-8 while matching; the patterns
  only name ASCII bytes and whole Cyrillic letters, so matching bytes gives the same
  matches.
\<close>

datatype re =
    Empty
  | Byte char
  | Class "char \<Rightarrow> bool"
  | Seq re re
  | Alt re re
  | Star re
  | Opt re
  | Cap re
  | EndText
  | WordBoundary

definition Plus :: "re \<Rightarrow> re" where
  "Plus r = Seq r (Star r)"

fun Lit :: "string \<Rightarrow> re" where
  "Lit [] = Empty"
| "Lit [c] = Byte c"
| "Lit (c # cs) = Seq (Byte c) (Lit cs)"

text \<open>A matcher state: the input already passed (nearest byte first), the input left,
  and the text of capture group 1.\<close>

type_synonym mstate = "string \<times> string \<times> string option"

definition isWordChar :: "char \<Rightarrow> bool" where
  "isWordChar c = (c \<in> set (lowerLetters @ upperLetters @ ''0123456789_''))"

definition atWordBoundary :: "string \<Rightarrow> string \<Rightarrow> bool" where
  "atWordBoundary passed rest =
     ((case passed of [] \<Rightarrow> False | c # _ \<Rightarrow> isWordChar c)
      \<noteq> (case rest of [] \<Rightarrow> False | c # _ \<Rightarrow> isWordChar c))"

fun step :: "(char \<Rightarrow> bool) \<Rightarrow> mstate \<Rightarrow> mstate list" where
  "step P (b, [], g) = []"
| "step P (b, c # cs, g) = (if P c then [(c # b, cs, g)] else [])"

text \<open>All ways to match at a state, in the order in which backtracking tries them.\<close>

fun matches :: "re \<Rightarrow> mstate \<Rightarrow> mstate list" where
  "matches Empty s = [s]"
| "matches (Byte c) s = step (\<lambda>x. x = c) s"
| "matches (Class P) s = step P s"
| "matches (Seq r1 r2) s = concat (map (matches r2) (matches r1 s))"
| "matches (Alt r1 r2) s = matches r1 s @ matches r2 s"
| "matches (Opt r) s = matches r s @ [s]"
| "matches (Star r) s =
     concat (map (\<lambda>s'. if length (fst (snd s')) < length (fst (snd s))
                         then matches (Star r) s' else [])
                 (matches r s)) @ [s]"
| "matches (Cap r) s =
     map (\<lambda>(b', r', g'). (b', r', Some (take (length (fst (snd s)) - length r') (fst (snd s)))))
         (matches r s)"
| "matches EndText s = (if fst (snd s) = [] then [s] else [])"
| "matches WordBoundary s = (if atWordBoundary (fst s) (fst (snd s)) then [s] else [])"

declare matches.simps [simp del]

fun hasGroup :: "re \<Rightarrow> bool" where
  "hasGroup (Cap r) = True"
| "hasGroup (Seq r1 r2) = (hasGroup r1 \<or> hasGroup r2)"
| "hasGroup (Alt r1 r2) = (hasGroup r1 \<or> hasGroup r2)"
| "hasGroup (Star r) = hasGroup r"
| "hasGroup (Opt r) = hasGroup r"
| "hasGroup r = False"

text \<open>The leftmost match: the first start position with a match, and there the first
  way to match.\<close>

fun findFrom :: "re \<Rightarrow> string \<Rightarrow> string \<Rightarrow> (string \<times> string option) option" where
  "findFrom r passed rest =
     (case matches r (passed, rest, None) of
        (b', r', g) # _ \<Rightarrow> Some (take (length rest - length r') rest, g)
      | [] \<Rightarrow> (case rest of [] \<Rightarrow> None | c # cs \<Rightarrow> findFrom r (c # passed) cs))"

declare findFrom.simps [simp del]

text \<open>\<open>FindStringSubmatch\<close>: \<open>nil\<close> (the empty list) without a match, otherwise the matched
  text followed by the text of the group, if the pattern has one.\<close>

definition FindStringSubmatch :: "re \<Rightarrow> string \<Rightarrow> string list" where
  "FindStringSubmatch r s =
     (case findFrom r [] s of
        None \<Rightarrow> []
      | Some (whole, g) \<Rightarrow>
          whole # (if hasGroup r then [case g of None \<Rightarrow> [] | Some x \<Rightarrow> x] else []))"

section \<open>Go's \<open>sort.Slice\<close>\<close>

text \<open>
  \<open>sort.Slice(x, less)\<close> runs the pattern-defeating quicksort of package \<open>sort\<close> on the
  slice, through \<open>less(i, j)\<close> and \<open>swap(i, j)\<close> on indices. The slice is a list, the
  comparison is given on elements. Slices of at most 12 elements are sorted by insertion.
\<close>

definition Swap :: "'a list \<Rightarrow> nat \<Rightarrow> nat \<Rightarrow> 'a list" where
  "Swap xs i j = xs[i := xs ! j, j := xs ! i]"

function insertion_inner :: "('a \<Rightarrow> 'a \<Rightarrow> bool) \<Rightarrow> 'a list \<Rightarrow> nat \<Rightarrow> nat \<Rightarrow> 'a list" where
  "insertion_inner lessf xs a j =
     (if j > a \<and> lessf (xs ! j) (xs ! (j - 1))
      then insertion_inner lessf (Swap xs j (j - 1)) a (j - 1)
      else xs)"
  by pat_completeness auto
termination
  by (relation "measure (\<lambda>(lessf, xs, a, j). j)") auto

declare insertion_inner.simps [simp del]

definition insertionSort_func :: "('a \<Rightarrow> 'a \<Rightarrow> bool) \<Rightarrow> 'a list \<Rightarrow> nat \<Rightarrow> nat \<Rightarrow> 'a list" where
  "insertionSort_func lessf xs a b = fold (\<lambda>i ys. insertion_inner lessf ys a i) [a + 1..<b] xs"

function siftDown_func ::
  "('a \<Rightarrow> 'a \<Rightarrow> bool) \<Rightarrow> 'a list \<Rightarrow> nat \<Rightarrow> nat \<Rightarrow> nat \<Rightarrow> 'a list" where
  "siftDown_func lessf xs rt hi first =
     (if 2 * rt + 1 \<ge> hi then xs
      else if 2 * rt + 2 < hi
              \<and> lessf (xs ! (first + (2 * rt + 1))) (xs ! (first + (2 * rt + 1) + 1))
      then (if \<not> lessf (xs ! (first + rt)) (xs ! (first + (2 * rt + 2))) then xs
            else siftDown_func lessf (Swap xs (first + rt) (first + (2 * rt + 2)))
                   (2 * rt + 2) hi first)
      else (if \<not> lessf (xs ! (first + rt)) (xs ! (first + (2 * rt + 1))) then xs
            else siftDown_func lessf (Swap xs (first + rt) (first + (2 * rt + 1)))
                   (2 * rt + 1) hi first))"
  by pat_completeness auto
termination
  by (relation "measure (\<lambda>(lessf, xs, rt, hi, first). hi - rt)") auto

declare siftDown_func.simps [simp del]

definition heapSort_func :: "('a \<Rightarrow> 'a \<Rightarrow> bool) \<Rightarrow> 'a list \<Rightarrow> nat \<Rightarrow> nat \<Rightarrow> 'a list" where
  "heapSort_func lessf xs a b =
     (let first = a; lo = 0; hi = b - a;
          heap = fold (\<lambda>i ys. siftDown_func lessf ys i hi first)
                   (rev [0..<Suc ((hi - 1) div 2)]) xs
      in fold (\<lambda>i ys. siftDown_func lessf (Swap ys first (first + i)) lo i first)
           (rev [0..<hi]) heap)"

text \<open>\<open>bits.Len\<close>, the 64-bit xorshift generator and \<open>breakPatterns\<close>, which swaps the
  three elements at \<open>idx - 1\<close>, \<open>idx\<close> and \<open>idx + 1\<close> around the middle \<open>idx = a + (len / 4) * 2\<close>
  with three pseudo-random positions of the range.\<close>

fun bits_Len :: "nat \<Rightarrow> nat" where
  "bits_Len n = (if n = 0 then 0 else Suc (bits_Len (n div 2)))"

declare bits_Len.simps [simp del]

definition xorshift_Next :: "64 word \<Rightarrow> 64 word" where
  "xorshift_Next r =
     (let r1 = r XOR push_bit 13 r;
          r2 = r1 XOR drop_bit 7 r1
      in r2 XOR push_bit 17 r2)"

definition nextPowerOfTwo :: "nat \<Rightarrow> nat" where
  "nextPowerOfTwo len = 2 ^ bits_Len len"

definition breakPatterns_step ::
  "nat \<Rightarrow> nat \<Rightarrow> nat \<Rightarrow> nat \<Rightarrow> nat \<Rightarrow> 64 word \<times> 'a list \<Rightarrow> 64 word \<times> 'a list" where
  "breakPatterns_step a len modulus idx i st =
     (let random = xorshift_Next (fst st);
          other0 = unat (random AND (word_of_nat modulus - 1));
          other = (if other0 \<ge> len then other0 - len else other0)
      in (random, Swap (snd st) (idx - 1 + i) (a + other)))"

definition breakPatterns_func :: "'a list \<Rightarrow> nat \<Rightarrow> nat \<Rightarrow> 'a list" where
  "breakPatterns_func xs a b =
     (let len = b - a in
      if len \<ge> 8 then
        snd (fold (breakPatterns_step a len (nextPowerOfTwo len) (a + (len div 4) * 2))
               [0, 1, 2] (word_of_nat len, xs))
      else xs)"

text \<open>Choosing the pivot.\<close>

datatype sortedHint = unknownHint | increasingHint | decreasingHint

definition order2_func ::
  "('a \<Rightarrow> 'a \<Rightarrow> bool) \<Rightarrow> 'a list \<Rightarrow> nat \<Rightarrow> nat \<Rightarrow> nat \<Rightarrow> nat \<times> nat \<times> nat" where
  "order2_func lessf xs a b swaps =
     (if lessf (xs ! b) (xs ! a) then (b, a, swaps + 1) else (a, b, swaps))"

definition median_func ::
  "('a \<Rightarrow> 'a \<Rightarrow> bool) \<Rightarrow> 'a list \<Rightarrow> nat \<Rightarrow> nat \<Rightarrow> nat \<Rightarrow> nat \<Rightarrow> nat \<times> nat" where
  "median_func lessf xs a b c swaps =
     (case order2_func lessf xs a b swaps of (a1, b1, s1) \<Rightarrow>
      (case order2_func lessf xs b1 c s1 of (b2, c2, s2) \<Rightarrow>
       (case order2_func lessf xs a1 b2 s2 of (a3, b3, s3) \<Rightarrow> (b3, s3))))"

definition medianAdjacent_func ::
  "('a \<Rightarrow> 'a \<Rightarrow> bool) \<Rightarrow> 'a list \<Rightarrow> nat \<Rightarrow> nat \<Rightarrow> nat \<times> nat" where
  "medianAdjacent_func lessf xs a swaps = median_func lessf xs (a - 1) a (a + 1) swaps"

definition choosePivot_func ::
  "('a \<Rightarrow> 'a \<Rightarrow> bool) \<Rightarrow> 'a list \<Rightarrow> nat \<Rightarrow> nat \<Rightarrow> nat \<times> sortedHint" where
  "choosePivot_func lessf xs a b =
     (let l = b - a;
          i = a + l div 4 * 1;
          j = a + l div 4 * 2;
          k = a + l div 4 * 3;
          js = (if l \<ge> 8 then
                  (if l \<ge> 50 then
                     (case medianAdjacent_func lessf xs i 0 of (i1, s1) \<Rightarrow>
                      (case medianAdjacent_func lessf xs j s1 of (j1, s2) \<Rightarrow>
                       (case medianAdjacent_func lessf xs k s2 of (k1, s3) \<Rightarrow>
                          median_func lessf xs i1 j1 k1 s3)))
                   else median_func lessf xs i j k 0)
                else (j, 0))
      in (if snd js = 0 then (fst js, increasingHint)
          else if snd js = 4 * 3 then (fst js, decreasingHint)
          else (fst js, unknownHint)))"

function reverseRange_loop :: "'a list \<Rightarrow> nat \<Rightarrow> nat \<Rightarrow> 'a list" where
  "reverseRange_loop xs i j =
     (if i < j then reverseRange_loop (Swap xs i j) (i + 1) (j - 1) else xs)"
  by pat_completeness auto
termination
  by (relation "measure (\<lambda>(xs, i, j). j - i)") auto

declare reverseRange_loop.simps [simp del]

definition reverseRange_func :: "'a list \<Rightarrow> nat \<Rightarrow> nat \<Rightarrow> 'a list" where
  "reverseRange_func xs a b = reverseRange_loop xs a (b - 1)"

text \<open>\<open>partialInsertionSort\<close>: the slice and whether it is sorted at the end.\<close>

function pis_skip :: "('a \<Rightarrow> 'a \<Rightarrow> bool) \<Rightarrow> 'a list \<Rightarrow> nat \<Rightarrow> nat \<Rightarrow> nat" where
  "pis_skip lessf xs b i =
     (if i < b \<and> \<not> lessf (xs ! i) (xs ! (i - 1)) then pis_skip lessf xs b (i + 1) else i)"
  by pat_completeness auto
termination
  by (relation "measure (\<lambda>(lessf, xs, b, i). b - i)") auto

declare pis_skip.simps [simp del]

function pis_shift_left :: "('a \<Rightarrow> 'a \<Rightarrow> bool) \<Rightarrow> 'a list \<Rightarrow> nat \<Rightarrow> 'a list" where
  "pis_shift_left lessf xs j =
     (if j \<ge> 1 \<and> lessf (xs ! j) (xs ! (j - 1))
      then pis_shift_left lessf (Swap xs j (j - 1)) (j - 1) else xs)"
  by pat_completeness auto
termination
  by (relation "measure (\<lambda>(lessf, xs, j). j)") auto

declare pis_shift_left.simps [simp del]

function pis_shift_right :: "('a \<Rightarrow> 'a \<Rightarrow> bool) \<Rightarrow> 'a list \<Rightarrow> nat \<Rightarrow> nat \<Rightarrow> 'a list" where
  "pis_shift_right lessf xs b j =
     (if j < b \<and> lessf (xs ! j) (xs ! (j - 1))
      then pis_shift_right lessf (Swap xs j (j - 1)) b (j + 1) else xs)"
  by pat_completeness auto
termination
  by (relation "measure (\<lambda>(lessf, xs, b, j). b - j)") auto

declare pis_shift_right.simps [simp del]

fun pis_steps ::
  "('a \<Rightarrow> 'a \<Rightarrow> bool) \<Rightarrow> 'a list \<Rightarrow> nat \<Rightarrow> nat \<Rightarrow> nat \<Rightarrow> nat \<Rightarrow> 'a list \<times> bool" where
  "pis_steps lessf xs a b i 0 = (xs, False)"
| "pis_steps lessf xs a b i (Suc steps) =
     (let i' = pis_skip lessf xs b i in
      if i' = b then (xs, True)
      else if b - a < 50 then (xs, False)
      else
        (let xs1 = Swap xs i' (i' - 1);
             xs2 = (if i' - a \<ge> 2 then pis_shift_left lessf xs1 (i' - 1) else xs1);
             xs3 = (if b - i' \<ge> 2 then pis_shift_right lessf xs2 b (i' + 1) else xs2)
         in pis_steps lessf xs3 a b i' steps))"

definition partialInsertionSort_func ::
  "('a \<Rightarrow> 'a \<Rightarrow> bool) \<Rightarrow> 'a list \<Rightarrow> nat \<Rightarrow> nat \<Rightarrow> 'a list \<times> bool" where
  "partialInsertionSort_func lessf xs a b = pis_steps lessf xs a b (a + 1) 5"

text \<open>The two partitions. Their scanning indices are Go \<open>int\<close>s: \<open>j\<close> may pass below \<open>i\<close>.\<close>

function scan_up :: "(int \<Rightarrow> bool) \<Rightarrow> int \<Rightarrow> int \<Rightarrow> int" where
  "scan_up P i j = (if i \<le> j \<and> P i then scan_up P (i + 1) j else i)"
  by pat_completeness auto
termination
  by (relation "measure (\<lambda>(P, i, j). nat (j + 1 - i))") auto

declare scan_up.simps [simp del]

function scan_down :: "(int \<Rightarrow> bool) \<Rightarrow> int \<Rightarrow> int \<Rightarrow> int" where
  "scan_down P i j = (if i \<le> j \<and> P j then scan_down P i (j - 1) else j)"
  by pat_completeness auto
termination
  by (relation "measure (\<lambda>(P, i, j). nat (j + 1 - i))") auto

declare scan_down.simps [simp del]

function partitionEqual_loop ::
  "('a \<Rightarrow> 'a \<Rightarrow> bool) \<Rightarrow> 'a list \<Rightarrow> nat \<Rightarrow> int \<Rightarrow> int \<Rightarrow> 'a list \<times> nat" where
  "partitionEqual_loop lessf xs a i j =
     (let i1 = scan_up (\<lambda>k. \<not> lessf (xs ! a) (xs ! nat k)) i j;
          j1 = scan_down (\<lambda>k. lessf (xs ! a) (xs ! nat k)) i1 j
      in if i1 > j1 then (xs, nat i1)
         else partitionEqual_loop lessf (Swap xs (nat i1) (nat j1)) a (i1 + 1) (j1 - 1))"
  by pat_completeness auto

termination
proof (relation "measure (\<lambda>(lessf, xs, a, i, j). nat (j + 1 - i))")
  show "wf (measure (\<lambda>(lessf, xs, a, i, j). nat (j + 1 - i)))" by simp
next
  fix lessf :: "'a \<Rightarrow> 'a \<Rightarrow> bool" and xs :: "'a list" and a :: nat and i j i1 j1 :: int
  assume i1: "i1 = scan_up (\<lambda>k. \<not> lessf (xs ! a) (xs ! nat k)) i j"
    and j1: "j1 = scan_down (\<lambda>k. lessf (xs ! a) (xs ! nat k)) i1 j"
    and le: "\<not> j1 < i1"
  have up: "i \<le> scan_up P i j" for P
    by (induction P i j rule: scan_up.induct) (subst scan_up.simps, auto)
  have down: "scan_down P i1 j \<le> j" for P
    by (induction P i1 j rule: scan_down.induct) (subst scan_down.simps, auto)
  have "i \<le> i1" "j1 \<le> j" using up down by (simp_all add: i1 j1)
  with le show "((lessf, Swap xs (nat i1) (nat j1), a, i1 + 1, j1 - 1), (lessf, xs, a, i, j))
        \<in> measure (\<lambda>(lessf, xs, a, i, j). nat (j + 1 - i))"
    by simp
qed

declare partitionEqual_loop.simps [simp del]

definition partitionEqual_func ::
  "('a \<Rightarrow> 'a \<Rightarrow> bool) \<Rightarrow> 'a list \<Rightarrow> nat \<Rightarrow> nat \<Rightarrow> nat \<Rightarrow> 'a list \<times> nat" where
  "partitionEqual_func lessf xs a b pivot =
     partitionEqual_loop lessf (Swap xs a pivot) a (int a + 1) (int b - 1)"

function partition_loop ::
  "('a \<Rightarrow> 'a \<Rightarrow> bool) \<Rightarrow> 'a list \<Rightarrow> nat \<Rightarrow> int \<Rightarrow> int \<Rightarrow> 'a list \<times> int" where
  "partition_loop lessf xs a i j =
     (let i1 = scan_up (\<lambda>k. lessf (xs ! nat k) (xs ! a)) i j;
          j1 = scan_down (\<lambda>k. \<not> lessf (xs ! nat k) (xs ! a)) i1 j
      in if i1 > j1 then (xs, j1)
         else partition_loop lessf (Swap xs (nat i1) (nat j1)) a (i1 + 1) (j1 - 1))"
  by pat_completeness auto
termination
proof (relation "measure (\<lambda>(lessf, xs, a, i, j). nat (j + 1 - i))")
  show "wf (measure (\<lambda>(lessf, xs, a, i, j). nat (j + 1 - i)))" by simp
next
  fix lessf :: "'a \<Rightarrow> 'a \<Rightarrow> bool" and xs :: "'a list" and a :: nat and i j i1 j1 :: int
  assume i1: "i1 = scan_up (\<lambda>k. lessf (xs ! nat k) (xs ! a)) i j"
    and j1: "j1 = scan_down (\<lambda>k. \<not> lessf (xs ! nat k) (xs ! a)) i1 j"
    and le: "\<not> j1 < i1"
  have up: "i \<le> scan_up P i j" for P
    by (induction P i j rule: scan_up.induct) (subst scan_up.simps, auto)
  have down: "scan_down P i1 j \<le> j" for P
    by (induction P i1 j rule: scan_down.induct) (subst scan_down.simps, auto)
  have "i \<le> i1" "j1 \<le> j" using up down by (simp_all add: i1 j1)
  with le show "((lessf, Swap xs (nat i1) (nat j1), a, i1 + 1, j1 - 1), (lessf, xs, a, i, j))
        \<in> measure (\<lambda>(lessf, xs, a, i, j). nat (j + 1 - i))"
    by simp
qed

declare partition_loop.simps [simp del]

definition partition_func ::
  "('a \<Rightarrow> 'a \<Rightarrow> bool) \<Rightarrow> 'a list \<Rightarrow> nat \<Rightarrow> nat \<Rightarrow> nat \<Rightarrow> 'a list \<times> nat \<times> bool" where
  "partition_func lessf xs a b pivot =
     (let xs0 = Swap xs a pivot;
          i1 = scan_up (\<lambda>k. lessf (xs0 ! nat k) (xs0 ! a)) (int a + 1) (int b - 1);
          j1 = scan_down (\<lambda>k. \<not> lessf (xs0 ! nat k) (xs0 ! a)) i1 (int b - 1)
      in if i1 > j1 then (Swap xs0 (nat j1) a, nat j1, True)
         else (case partition_loop lessf (Swap xs0 (nat i1) (nat j1)) a (i1 + 1) (j1 - 1) of
                 (xs2, j2) \<Rightarrow> (Swap xs2 (nat j2) a, nat j2, False)))"

text \<open>
  One round of the loop of \<open>pdqsort_func\<close>, up to the point where it returns, continues
  with the range narrowed by \<open>partitionEqual\<close>, or has partitioned the range around
  \<open>mid\<close> and recurses.
\<close>

datatype 'a pdq_round =
    Return "'a list"
  | ContinueFrom "'a list" nat nat
  | Partitioned "'a list" nat bool nat

definition pdqsort_round ::
  "('a \<Rightarrow> 'a \<Rightarrow> bool) \<Rightarrow> 'a list \<Rightarrow> nat \<Rightarrow> nat \<Rightarrow> nat \<Rightarrow> bool \<Rightarrow> bool \<Rightarrow> 'a pdq_round" where
  "pdqsort_round lessf xs a b limit wasBalanced wasPartitioned =
     (if b - a \<le> 12 then Return (insertionSort_func lessf xs a b)
      else if limit = 0 then Return (heapSort_func lessf xs a b)
      else
        (let xs1 = (if \<not> wasBalanced then breakPatterns_func xs a b else xs);
             limit1 = (if \<not> wasBalanced then limit - 1 else limit);
             ph = choosePivot_func lessf xs1 a b;
             xs2 = (if snd ph = decreasingHint then reverseRange_func xs1 a b else xs1);
             pivot = (if snd ph = decreasingHint then (b - 1) - (fst ph - a) else fst ph);
             hint = (if snd ph = decreasingHint then increasingHint else snd ph);
             try = (wasBalanced \<and> wasPartitioned \<and> hint = increasingHint);
             pis = partialInsertionSort_func lessf xs2 a b;
             xs3 = (if try then fst pis else xs2)
         in if try \<and> snd pis then Return xs3
            else if a > 0 \<and> \<not> lessf (xs3 ! (a - 1)) (xs3 ! pivot) then
              (case partitionEqual_func lessf xs3 a b pivot of
                 (xs4, mid) \<Rightarrow> ContinueFrom xs4 mid limit1)
            else
              (case partition_func lessf xs3 a b pivot of
                 (xs4, mid, alreadyPartitioned) \<Rightarrow>
                   Partitioned xs4 mid alreadyPartitioned limit1)))"

text \<open>
  The loop and the recursion of \<open>pdqsort_func\<close>. Each round of the loop and each
  recursive call takes one unit of fuel; \<open>None\<close> is running out of fuel. After a
  partition the shorter side is sorted by the recursive call and the loop goes on with
  the longer side.
\<close>

fun pdqsort_func ::
  "nat \<Rightarrow> ('a \<Rightarrow> 'a \<Rightarrow> bool) \<Rightarrow> 'a list \<Rightarrow> nat \<Rightarrow> nat \<Rightarrow> nat \<Rightarrow> bool \<Rightarrow> bool \<Rightarrow> 'a list option" where
  "pdqsort_func 0 lessf xs a b limit wasBalanced wasPartitioned = None"
| "pdqsort_func (Suc fuel) lessf xs a b limit wasBalanced wasPartitioned =
     (case pdqsort_round lessf xs a b limit wasBalanced wasPartitioned of
        Return ys \<Rightarrow> Some ys
      | ContinueFrom xs4 mid limit1 \<Rightarrow>
          pdqsort_func fuel lessf xs4 mid b limit1 wasBalanced wasPartitioned
      | Partitioned xs4 mid alreadyPartitioned limit1 \<Rightarrow>
          (if mid - a < b - mid then
             (case pdqsort_func fuel lessf xs4 a mid limit1 True True of
                None \<Rightarrow> None
              | Some xs5 \<Rightarrow>
                  pdqsort_func fuel lessf xs5 (mid + 1) b limit1
                    (mid - a \<ge> (b - a) div 8) alreadyPartitioned)
           else
             (case pdqsort_func fuel lessf xs4 (mid + 1) b limit1 True True of
                None \<Rightarrow> None
              | Some xs5 \<Rightarrow>
                  pdqsort_func fuel lessf xs5 a mid limit1
                    (b - mid \<ge> (b - a) div 8) alreadyPartitioned)))"

declare pdqsort_func.simps [simp del]

text \<open>\<open>sort.Slice\<close>: every round shortens the range, so fuel for one round per element
  (and one more) is given.\<close>

definition sort_Slice :: "('a \<Rightarrow> 'a \<Rightarrow> bool) \<Rightarrow> 'a list \<Rightarrow> 'a list option" where
  "sort_Slice lessf xs =
     pdqsort_func (Suc (length xs)) lessf xs 0 (length xs) (bits_Len (length xs)) True True"

section \<open>Format buttons of the detail card (internal/telegram/bot.go)\<close>

record BookFormatOption =
  Path :: string
  Label :: string

text \<open>Character classes of Go's regular expressions: \<open>\s\<close> is \<open>[\t\n\f\r ]\<close>, \<open>\d\<close> is
  \<open>[0-9]\<close>.\<close>

definition reSpace :: "char \<Rightarrow> bool" where
  "reSpace c = (c \<in> set [CHR 0x09, CHR 0x0A, CHR 0x0C, CHR 0x0D, CHR '' ''])"

definition reDigit :: "char \<Rightarrow> bool" where
  "reDigit c = (c \<in> set ''0123456789'')"

text \<open>One of several byte strings, tried in order.\<close>

fun AnyOf :: "string list \<Rightarrow> re" where
  "AnyOf [] = Class (\<lambda>c. False)"
| "AnyOf [s] = Lit s"
| "AnyOf (s # ss) = Alt (Lit s) (AnyOf ss)"

text \<open>\<open>sizeInParensRe = \(([^)]+)\)\s*$\<close>\<close>

definition sizeInParensRe :: re where
  "sizeInParensRe =
     Seq (Byte (CHR ''(''))
    (Seq (Cap (Plus (Class (\<lambda>c. c \<noteq> CHR '')''))))
    (Seq (Byte (CHR '')''))
    (Seq (Star (Class reSpace))
         EndText)))"

text \<open>
  \<open>sizeLooseRe = (?i)\b\d+(?:[.,]\d+)?\s*(?:kb|mb|gb|kib|mib|gib|\<dots>)\b\<close>, where the last
  three alternatives are the Cyrillic unit names. Under \<open>(?i)\<close> a letter stands for all
  characters of its case-folding orbit: \<open>k\<close> for \<open>k\<close>, \<open>K\<close> and the Kelvin sign U+212A, each
  other Latin letter for its two cases, a Cyrillic letter for its small and its capital
  form (two bytes each in UTF-8).
\<close>

definition ci_k :: re where "ci_k = AnyOf [''k'', ''K'', [CHR 0xE2, CHR 0x84, CHR 0xAA]]"
definition ci_m :: re where "ci_m = AnyOf [''m'', ''M'']"
definition ci_g :: re where "ci_g = AnyOf [''g'', ''G'']"
definition ci_i :: re where "ci_i = AnyOf [''i'', ''I'']"
definition ci_b :: re where "ci_b = AnyOf [''b'', ''B'']"
definition ci_cyr_k :: re where "ci_cyr_k = AnyOf [[CHR 0xD0, CHR 0xBA], [CHR 0xD0, CHR 0x9A]]"
definition ci_cyr_m :: re where "ci_cyr_m = AnyOf [[CHR 0xD0, CHR 0xBC], [CHR 0xD0, CHR 0x9C]]"
definition ci_cyr_g :: re where "ci_cyr_g = AnyOf [[CHR 0xD0, CHR 0xB3], [CHR 0xD0, CHR 0x93]]"
definition ci_cyr_b :: re where "ci_cyr_b = AnyOf [[CHR 0xD0, CHR 0xB1], [CHR 0xD0, CHR 0x91]]"

definition sizeUnits :: re where
  "sizeUnits =
     Alt (Seq ci_k ci_b)
    (Alt (Seq ci_m ci_b)
    (Alt (Seq ci_g ci_b)
    (Alt (Seq ci_k (Seq ci_i ci_b))
    (Alt (Seq ci_m (Seq ci_i ci_b))
    (Alt (Seq ci_g (Seq ci_i ci_b))
    (Alt (Seq ci_cyr_k ci_cyr_b)
    (Alt (Seq ci_cyr_m ci_cyr_b)
         (Seq ci_cyr_g ci_cyr_b))))))))"

definition sizeLooseRe :: re where
  "sizeLooseRe =
     Seq WordBoundary
    (Seq (Plus (Class reDigit))
    (Seq (Opt (Seq (Class (\<lambda>c. c = CHR ''.'' \<or> c = CHR '','')) (Plus (Class reDigit))))
    (Seq (Star (Class reSpace))
    (Seq sizeUnits
         WordBoundary))))"

definition formatButtonText :: "unicode \<Rightarrow> BookFormatOption \<Rightarrow> string" where
  "formatButtonText U opt =
     (let format0 = ToUpper U (TrimSpace U (Path opt));
          format = (if format0 = [] then ''FILE'' else format0);
          label = TrimSpace U (Label opt)
      in if label = [] then format
         else
           (let m = FindStringSubmatch sizeInParensRe label in
            if length m = 2 then
              (let inParens = TrimSpace U (m ! 1) in
               if EqualFold U inParens (TrimSpace U (Path opt)) then format
               else format @ '' ('' @ inParens @ '')'')
            else
              (let m = FindStringSubmatch sizeLooseRe label in
               if length m = 1 then format @ '' ('' @ TrimSpace U (m ! 0) @ '')''
               else format)))"

text \<open>
  The keyboard rows that \<open>sendBookDetails\<close> builds from the formats of a book. The
  comparison handed to \<open>sort.Slice\<close> is Go's \<open><\<close> on strings, the lexicographic order of
  the bytes.
\<close>

definition formatSortKey :: "unicode \<Rightarrow> BookFormatOption \<Rightarrow> string" where
  "formatSortKey U opt = ToUpper U (TrimSpace U (Path opt))"

definition formatLess :: "unicode \<Rightarrow> BookFormatOption \<Rightarrow> BookFormatOption \<Rightarrow> bool" where
  "formatLess U x y = (formatSortKey U x < formatSortKey U y)"

definition formatButton :: "unicode \<Rightarrow> string \<Rightarrow> BookFormatOption \<Rightarrow> InlineKeyboardButton" where
  "formatButton U bookID opt =
     NewInlineKeyboardButtonData (formatButtonText U opt)
       (cbDownloadPrefix @ bookID @ '':'' @ Path opt)"

text \<open>The loop that puts two buttons in a row: the state is the finished rows and the
  row being filled.\<close>

definition appendButton ::
  "InlineKeyboardButton \<Rightarrow> InlineKeyboardButton list list \<times> InlineKeyboardButton list
     \<Rightarrow> InlineKeyboardButton list list \<times> InlineKeyboardButton list" where
  "appendButton btn st =
     (let row = snd st @ [btn] in
      if length row = 2 then (fst st @ [row], []) else (fst st, row))"

definition twoPerRow :: "InlineKeyboardButton list \<Rightarrow> InlineKeyboardButton list list" where
  "twoPerRow btns =
     (let st = fold appendButton btns ([], []) in
      if length (snd st) > 0 then fst st @ [snd st] else fst st)"

definition commonFormats :: "string list" where
  "commonFormats = [''epub'', ''fb2'', ''pdf'']"

definition sendBookDetails_rows ::
  "unicode \<Rightarrow> string \<Rightarrow> BookFormatOption list \<Rightarrow> InlineKeyboardButton list list option" where
  "sendBookDetails_rows U bookID formats =
     (if length formats = 0 then
        Some [map (\<lambda>f. NewInlineKeyboardButtonData (ToUpper U f)
                          (cbDownloadPrefix @ bookID @ '':'' @ f)) commonFormats]
      else
        (case sort_Slice (formatLess U) formats of
           None \<Rightarrow> None
         | Some fs \<Rightarrow> Some (twoPerRow (map (formatButton U bookID) fs))))"

text \<open>Unicode tables for running examples on ASCII text, where they are never
  consulted.\<close>

definition asciiOnly :: unicode where
  "asciiOnly = \<lparr>mapToUpper = (\<lambda>s. s), trimFuncIsSpace = (\<lambda>s. s),
                 trimRightFuncIsSpace = (\<lambda>s. s), equalFoldUnicode = (\<lambda>s t. s = t)\<rparr>"







section \<open>The callback dispatcher (internal/telegram/bot.go, handleCallback)\<close>

text \<open>
  A callback query as the dispatcher reads it: its identifier, the message it comes from
  (absent, or the chat and the message identifier), its payload, and the sender, which
  Telegram always gives for a callback query.
\<close>

record CallbackQuery =
  cbID :: string
  cbMessage :: "(int \<times> int) option"
  cbData :: string
  cbFromID :: int
  cbFromUserName :: string

text \<open>
  What the dispatcher does, in order: answering the callback (the acknowledgement that
  clears the loading indicator), sending a text message, and the calls of the three
  actions, each of which talks to the catalog or to Telegram.
\<close>

datatype action =
    AnswerCallback string string
  | SendMessage int string
  | EditBooksPage int int int
  | DownloadAndSend int int string string string
  | SendBookDetails int string

text \<open>The texts of the dispatcher, as UTF-8 bytes.\<close>

definition textPaging :: string where
  "textPaging =
     [CHR 0xD0, CHR 0x9B, CHR 0xD0, CHR 0xB8, CHR 0xD1, CHR 0x81, CHR 0xD1, CHR 0x82, CHR
     0xD0, CHR 0xB0, CHR 0xD1, CHR 0x8E, CHR 0xE2, CHR 0x80, CHR 0xA6]"

definition textCannotSwitchPage :: string where
  "textCannotSwitchPage =
     [CHR 0xE2, CHR 0x9A, CHR 0xA0, CHR 0xEF, CHR 0xB8, CHR 0x8F] @ '' '' @ [CHR 0xD0, CHR
     0x9D, CHR 0xD0, CHR 0xB5] @ '' '' @ [CHR 0xD1, CHR 0x83, CHR 0xD0, CHR 0xB4, CHR 0xD0,
     CHR 0xB0, CHR 0xD0, CHR 0xBB, CHR 0xD0, CHR 0xBE, CHR 0xD1, CHR 0x81, CHR 0xD1, CHR
     0x8C] @ '' '' @ [CHR 0xD0, CHR 0xBF, CHR 0xD0, CHR 0xB5, CHR 0xD1, CHR 0x80, CHR 0xD0,
     CHR 0xB5, CHR 0xD0, CHR 0xBA, CHR 0xD0, CHR 0xBB, CHR 0xD1, CHR 0x8E, CHR 0xD1, CHR
     0x87, CHR 0xD0, CHR 0xB8, CHR 0xD1, CHR 0x82, CHR 0xD1, CHR 0x8C] @ '' '' @ [CHR 0xD1,
     CHR 0x81, CHR 0xD1, CHR 0x82, CHR 0xD1, CHR 0x80, CHR 0xD0, CHR 0xB0, CHR 0xD0, CHR
     0xBD, CHR 0xD0, CHR 0xB8, CHR 0xD1, CHR 0x86, CHR 0xD1, CHR 0x83] @ ''.''"

definition textCannotParseFormat :: string where
  "textCannotParseFormat =
     [CHR 0xE2, CHR 0x9A, CHR 0xA0, CHR 0xEF, CHR 0xB8, CHR 0x8F] @ '' '' @ [CHR 0xD0, CHR
     0x9D, CHR 0xD0, CHR 0xB5] @ '' '' @ [CHR 0xD1, CHR 0x83, CHR 0xD0, CHR 0xB4, CHR 0xD0,
     CHR 0xB0, CHR 0xD0, CHR 0xBB, CHR 0xD0, CHR 0xBE, CHR 0xD1, CHR 0x81, CHR 0xD1, CHR
     0x8C] @ '' '' @ [CHR 0xD1, CHR 0x80, CHR 0xD0, CHR 0xB0, CHR 0xD1, CHR 0x81, CHR 0xD0,
     CHR 0xBF, CHR 0xD0, CHR 0xBE, CHR 0xD0, CHR 0xB7, CHR 0xD0, CHR 0xBD, CHR 0xD0, CHR
     0xB0, CHR 0xD1, CHR 0x82, CHR 0xD1, CHR 0x8C] @ '' '' @ [CHR 0xD1, CHR 0x84, CHR 0xD0,
     CHR 0xBE, CHR 0xD1, CHR 0x80, CHR 0xD0, CHR 0xBC, CHR 0xD0, CHR 0xB0, CHR 0xD1, CHR
     0x82] @ ''.''"

definition textStartDownload :: string where
  "textStartDownload =
     [CHR 0xD0, CHR 0x9D, CHR 0xD0, CHR 0xB0, CHR 0xD1, CHR 0x87, CHR 0xD0, CHR 0xB8, CHR
     0xD0, CHR 0xBD, CHR 0xD0, CHR 0xB0, CHR 0xD1, CHR 0x8E] @ '' '' @ [CHR 0xD1, CHR 0x81,
     CHR 0xD0, CHR 0xBA, CHR 0xD0, CHR 0xB0, CHR 0xD1, CHR 0x87, CHR 0xD0, CHR 0xB8, CHR
     0xD0, CHR 0xB2, CHR 0xD0, CHR 0xB0, CHR 0xD0, CHR 0xBD, CHR 0xD0, CHR 0xB8, CHR 0xD0,
     CHR 0xB5] @ ''... '' @ [CHR 0xE2, CHR 0x8F, CHR 0xB3]"

definition textOpening :: string where
  "textOpening =
     [CHR 0xD0, CHR 0x9E, CHR 0xD1, CHR 0x82, CHR 0xD0, CHR 0xBA, CHR 0xD1, CHR 0x80, CHR
     0xD1, CHR 0x8B, CHR 0xD0, CHR 0xB2, CHR 0xD0, CHR 0xB0, CHR 0xD1, CHR 0x8E, CHR 0xE2,
     CHR 0x80, CHR 0xA6]"


text \<open>
  \<open>strconv.Atoi\<close>: an optional sign and at least one decimal digit, nothing else; the value
  must fit Go's 64-bit \<open>int\<close>. \<open>None\<close> is the error.
\<close>

fun digitsValue :: "string \<Rightarrow> int \<Rightarrow> int option" where
  "digitsValue [] n = Some n"
| "digitsValue (ch # s) n =
     (if ch \<in> set ''0123456789'' then digitsValue s (n * 10 + (int (of_char ch) - 48))
      else None)"

definition Atoi :: "string \<Rightarrow> int option" where
  "Atoi s =
     (let neg = (s \<noteq> [] \<and> hd s = CHR ''-'');
          ds = (if s \<noteq> [] \<and> (hd s = CHR ''-'' \<or> hd s = CHR ''+'') then tl s else s)
      in if ds = [] then None
         else
           (case digitsValue ds 0 of
              None \<Rightarrow> None
            | Some n \<Rightarrow>
                (let v = (if neg then - n else n) in
                 if - (2 ^ 63) \<le> v \<and> v < 2 ^ 63 then Some v else None)))"

text \<open>\<open>strings.SplitN(s, ":", 2)\<close>: the text before the first colon and the text after it,
  or the whole text alone when it has no colon.\<close>

definition SplitN2 :: "string \<Rightarrow> string list" where
  "SplitN2 s =
     (if CHR '':'' \<in> set s
      then [takeWhile (\<lambda>c. c \<noteq> CHR '':'') s, tl (dropWhile (\<lambda>c. c \<noteq> CHR '':'') s)]
      else [s])"

definition handleCallback :: "CallbackQuery \<Rightarrow> action list" where
  "handleCallback cb =
     (case cbMessage cb of
        None \<Rightarrow> []
      | Some (chatID, messageID) \<Rightarrow>
          (let cdata = cbData cb in
           if HasPrefix cdata cbPagePrefix then
             AnswerCallback (cbID cb) textPaging #
               (case Atoi (TrimPrefix cdata cbPagePrefix) of
                  None \<Rightarrow> [SendMessage chatID textCannotSwitchPage]
                | Some p \<Rightarrow> [EditBooksPage chatID messageID p])
           else if HasPrefix cdata cbDownloadPrefix then
             (let parts = SplitN2 (TrimPrefix cdata cbDownloadPrefix) in
              if length parts \<noteq> 2 then [SendMessage chatID textCannotParseFormat]
              else [AnswerCallback (cbID cb) textStartDownload,
                    DownloadAndSend chatID (cbFromID cb) (cbFromUserName cb)
                      (parts ! 0) (parts ! 1)])
           else if HasPrefix cdata cbBookPrefix then
             [AnswerCallback (cbID cb) textOpening,
              SendBookDetails chatID (TrimPrefix cdata cbBookPrefix)]
           else if cdata \<noteq> [] then
             [AnswerCallback (cbID cb) textOpening, SendBookDetails chatID cdata]
           else []))"

text \<open>Whether a step is the answer to the callback.\<close>

definition isAnswer :: "action \<Rightarrow> bool" where
  "isAnswer a = (case a of AnswerCallback i t \<Rightarrow> True | _ \<Rightarrow> False)"

section \<open>Saving a downloaded file (internal/storage/books.go)\<close>

text \<open>
  Errors are the texts of Go's \<open>error\<close> values, because the caller tells them apart by
  their text. The operating system is a record: the files (path to content), and what the
  calls that can fail will answer (\<open>None\<close> is success, otherwise the text of the error).
  \<open>rand.Read\<close> fills the buffer from a sequence of random bytes.
\<close>

record OS =
  files :: "string \<rightharpoonup> string"
  mkdirAllError :: "string option"
  randReadError :: "string option"
  randBytes :: "nat \<Rightarrow> 8 word"
  createError :: "string option"
  writeError :: "string option"
  removeError :: "string option"

text \<open>A stream to read from: its bytes, and the error with which reading fails after
  them (\<open>None\<close>: the stream ends).\<close>

record Reader =
  content :: string
  readError :: "string option"

record SavedFile =
  RelativePath :: string
  SizeBytes :: int

text \<open>The texts of the errors and of the two messages, as UTF-8 bytes.\<close>

definition errEmptyBaseDir :: string where
  "errEmptyBaseDir =
     [CHR 0xD0, CHR 0xBF, CHR 0xD1, CHR 0x83, CHR 0xD1, CHR 0x81, CHR 0xD1, CHR 0x82, CHR
     0xD0, CHR 0xB0, CHR 0xD1, CHR 0x8F] @ '' '' @ [CHR 0xD0, CHR 0xB4, CHR 0xD0, CHR 0xB8,
     CHR 0xD1, CHR 0x80, CHR 0xD0, CHR 0xB5, CHR 0xD0, CHR 0xBA, CHR 0xD1, CHR 0x82, CHR
     0xD0, CHR 0xBE, CHR 0xD1, CHR 0x80, CHR 0xD0, CHR 0xB8, CHR 0xD1, CHR 0x8F] @ '' '' @
     [CHR 0xD1, CHR 0x85, CHR 0xD1, CHR 0x80, CHR 0xD0, CHR 0xB0, CHR 0xD0, CHR 0xBD, CHR
     0xD0, CHR 0xB5, CHR 0xD0, CHR 0xBD, CHR 0xD0, CHR 0xB8, CHR 0xD1, CHR 0x8F]"

definition errMkdirPrefix :: string where
  "errMkdirPrefix =
     [CHR 0xD0, CHR 0xBD, CHR 0xD0, CHR 0xB5] @ '' '' @ [CHR 0xD1, CHR 0x83, CHR 0xD0, CHR
     0xB4, CHR 0xD0, CHR 0xB0, CHR 0xD0, CHR 0xBB, CHR 0xD0, CHR 0xBE, CHR 0xD1, CHR 0x81,
     CHR 0xD1, CHR 0x8C] @ '' '' @ [CHR 0xD1, CHR 0x81, CHR 0xD0, CHR 0xBE, CHR 0xD0, CHR
     0xB7, CHR 0xD0, CHR 0xB4, CHR 0xD0, CHR 0xB0, CHR 0xD1, CHR 0x82, CHR 0xD1, CHR 0x8C] @
     '' '' @ [CHR 0xD0, CHR 0xB4, CHR 0xD0, CHR 0xB8, CHR 0xD1, CHR 0x80, CHR 0xD0, CHR 0xB5,
     CHR 0xD0, CHR 0xBA, CHR 0xD1, CHR 0x82, CHR 0xD0, CHR 0xBE, CHR 0xD1, CHR 0x80, CHR
     0xD0, CHR 0xB8, CHR 0xD1, CHR 0x8E] @ '' '' @ [CHR 0xD1, CHR 0x85, CHR 0xD1, CHR 0x80,
     CHR 0xD0, CHR 0xB0, CHR 0xD0, CHR 0xBD, CHR 0xD0, CHR 0xB5, CHR 0xD0, CHR 0xBD, CHR
     0xD0, CHR 0xB8, CHR 0xD1, CHR 0x8F] @ '': ''"

definition errNamePrefix :: string where
  "errNamePrefix =
     [CHR 0xD0, CHR 0xBD, CHR 0xD0, CHR 0xB5] @ '' '' @ [CHR 0xD1, CHR 0x83, CHR 0xD0, CHR
     0xB4, CHR 0xD0, CHR 0xB0, CHR 0xD0, CHR 0xBB, CHR 0xD0, CHR 0xBE, CHR 0xD1, CHR 0x81,
     CHR 0xD1, CHR 0x8C] @ '' '' @ [CHR 0xD1, CHR 0x81, CHR 0xD0, CHR 0xB3, CHR 0xD0, CHR
     0xB5, CHR 0xD0, CHR 0xBD, CHR 0xD0, CHR 0xB5, CHR 0xD1, CHR 0x80, CHR 0xD0, CHR 0xB8,
     CHR 0xD1, CHR 0x80, CHR 0xD0, CHR 0xBE, CHR 0xD0, CHR 0xB2, CHR 0xD0, CHR 0xB0, CHR
     0xD1, CHR 0x82, CHR 0xD1, CHR 0x8C] @ '' '' @ [CHR 0xD0, CHR 0xB8, CHR 0xD0, CHR 0xBC,
     CHR 0xD1, CHR 0x8F] @ '' '' @ [CHR 0xD1, CHR 0x84, CHR 0xD0, CHR 0xB0, CHR 0xD0, CHR
     0xB9, CHR 0xD0, CHR 0xBB, CHR 0xD0, CHR 0xB0] @ '': ''"

definition errCreatePrefix :: string where
  "errCreatePrefix =
     [CHR 0xD0, CHR 0xBD, CHR 0xD0, CHR 0xB5] @ '' '' @ [CHR 0xD1, CHR 0x83, CHR 0xD0, CHR
     0xB4, CHR 0xD0, CHR 0xB0, CHR 0xD0, CHR 0xBB, CHR 0xD0, CHR 0xBE, CHR 0xD1, CHR 0x81,
     CHR 0xD1, CHR 0x8C] @ '' '' @ [CHR 0xD1, CHR 0x81, CHR 0xD0, CHR 0xBE, CHR 0xD0, CHR
     0xB7, CHR 0xD0, CHR 0xB4, CHR 0xD0, CHR 0xB0, CHR 0xD1, CHR 0x82, CHR 0xD1, CHR 0x8C] @
     '' '' @ [CHR 0xD1, CHR 0x84, CHR 0xD0, CHR 0xB0, CHR 0xD0, CHR 0xB9, CHR 0xD0, CHR 0xBB]
     @ '': ''"

definition errWritePrefix :: string where
  "errWritePrefix =
     [CHR 0xD0, CHR 0xBE, CHR 0xD1, CHR 0x88, CHR 0xD0, CHR 0xB8, CHR 0xD0, CHR 0xB1, CHR
     0xD0, CHR 0xBA, CHR 0xD0, CHR 0xB0] @ '' '' @ [CHR 0xD0, CHR 0xB7, CHR 0xD0, CHR 0xB0,
     CHR 0xD0, CHR 0xBF, CHR 0xD0, CHR 0xB8, CHR 0xD1, CHR 0x81, CHR 0xD0, CHR 0xB8] @ '' ''
     @ [CHR 0xD1, CHR 0x84, CHR 0xD0, CHR 0xB0, CHR 0xD0, CHR 0xB9, CHR 0xD0, CHR 0xBB, CHR
     0xD0, CHR 0xB0] @ '': ''"

definition errTooLarge :: string where
  "errTooLarge =
     [CHR 0xD1, CHR 0x84, CHR 0xD0, CHR 0xB0, CHR 0xD0, CHR 0xB9, CHR 0xD0, CHR 0xBB] @ '' ''
     @ [CHR 0xD1, CHR 0x81, CHR 0xD0, CHR 0xBB, CHR 0xD0, CHR 0xB8, CHR 0xD1, CHR 0x88, CHR
     0xD0, CHR 0xBA, CHR 0xD0, CHR 0xBE, CHR 0xD0, CHR 0xBC] @ '' '' @ [CHR 0xD0, CHR 0xB1,
     CHR 0xD0, CHR 0xBE, CHR 0xD0, CHR 0xBB, CHR 0xD1, CHR 0x8C, CHR 0xD1, CHR 0x88, CHR
     0xD0, CHR 0xBE, CHR 0xD0, CHR 0xB9]"

definition errBadLength :: string where
  "errBadLength =
     [CHR 0xD0, CHR 0xBD, CHR 0xD0, CHR 0xB5, CHR 0xD0, CHR 0xBA, CHR 0xD0, CHR 0xBE, CHR
     0xD1, CHR 0x80, CHR 0xD1, CHR 0x80, CHR 0xD0, CHR 0xB5, CHR 0xD0, CHR 0xBA, CHR 0xD1,
     CHR 0x82, CHR 0xD0, CHR 0xBD, CHR 0xD0, CHR 0xB0, CHR 0xD1, CHR 0x8F] @ '' '' @ [CHR
     0xD0, CHR 0xB4, CHR 0xD0, CHR 0xBB, CHR 0xD0, CHR 0xB8, CHR 0xD0, CHR 0xBD, CHR 0xD0,
     CHR 0xB0]"

definition tooLargePhrase :: string where
  "tooLargePhrase =
     [CHR 0xD1, CHR 0x81, CHR 0xD0, CHR 0xBB, CHR 0xD0, CHR 0xB8, CHR 0xD1, CHR 0x88, CHR
     0xD0, CHR 0xBA, CHR 0xD0, CHR 0xBE, CHR 0xD0, CHR 0xBC] @ '' '' @ [CHR 0xD0, CHR 0xB1,
     CHR 0xD0, CHR 0xBE, CHR 0xD0, CHR 0xBB, CHR 0xD1, CHR 0x8C, CHR 0xD1, CHR 0x88, CHR
     0xD0, CHR 0xBE, CHR 0xD0, CHR 0xB9]"

definition textFileTooLarge :: string where
  "textFileTooLarge =
     [CHR 0xE2, CHR 0x9D, CHR 0x8C] @ '' '' @ [CHR 0xD0, CHR 0xA4, CHR 0xD0, CHR 0xB0, CHR
     0xD0, CHR 0xB9, CHR 0xD0, CHR 0xBB] @ '' '' @ [CHR 0xD1, CHR 0x81, CHR 0xD0, CHR 0xBB,
     CHR 0xD0, CHR 0xB8, CHR 0xD1, CHR 0x88, CHR 0xD0, CHR 0xBA, CHR 0xD0, CHR 0xBE, CHR
     0xD0, CHR 0xBC] @ '' '' @ [CHR 0xD0, CHR 0xB1, CHR 0xD0, CHR 0xBE, CHR 0xD0, CHR 0xBB,
     CHR 0xD1, CHR 0x8C, CHR 0xD1, CHR 0x88, CHR 0xD0, CHR 0xBE, CHR 0xD0, CHR 0xB9] @ ''. ''
     @ [CHR 0xD0, CHR 0x9C, CHR 0xD0, CHR 0xB0, CHR 0xD0, CHR 0xBA, CHR 0xD1, CHR 0x81, CHR
     0xD0, CHR 0xB8, CHR 0xD0, CHR 0xBC, CHR 0xD0, CHR 0xB0, CHR 0xD0, CHR 0xBB, CHR 0xD1,
     CHR 0x8C, CHR 0xD0, CHR 0xBD, CHR 0xD1, CHR 0x8B, CHR 0xD0, CHR 0xB9] @ '' '' @ [CHR
     0xD1, CHR 0x80, CHR 0xD0, CHR 0xB0, CHR 0xD0, CHR 0xB7, CHR 0xD0, CHR 0xBC, CHR 0xD0,
     CHR 0xB5, CHR 0xD1, CHR 0x80] @ '': 50 MB.''"

definition textSaveError :: string where
  "textSaveError =
     [CHR 0xE2, CHR 0x9D, CHR 0x8C] @ '' '' @ [CHR 0xD0, CHR 0x9E, CHR 0xD1, CHR 0x88, CHR
     0xD0, CHR 0xB8, CHR 0xD0, CHR 0xB1, CHR 0xD0, CHR 0xBA, CHR 0xD0, CHR 0xB0] @ '' '' @
     [CHR 0xD0, CHR 0xBF, CHR 0xD1, CHR 0x80, CHR 0xD0, CHR 0xB8] @ '' '' @ [CHR 0xD1, CHR
     0x81, CHR 0xD0, CHR 0xBE, CHR 0xD1, CHR 0x85, CHR 0xD1, CHR 0x80, CHR 0xD0, CHR 0xB0,
     CHR 0xD0, CHR 0xBD, CHR 0xD0, CHR 0xB5, CHR 0xD0, CHR 0xBD, CHR 0xD0, CHR 0xB8, CHR
     0xD0, CHR 0xB8] @ '' '' @ [CHR 0xD1, CHR 0x84, CHR 0xD0, CHR 0xB0, CHR 0xD0, CHR 0xB9,
     CHR 0xD0, CHR 0xBB, CHR 0xD0, CHR 0xB0] @ ''.''"


text \<open>
  \<open>filepath.Ext\<close>: the suffix from the last dot of the last path element on, empty without
  such a dot. \<open>filepath.Join\<close> of a directory and a name cleans the path \<open>dir/name\<close>; the
  cleaning function is a parameter.
\<close>

definition Ext :: "string \<Rightarrow> string" where
  "Ext path =
     (let lastElem = takeWhile (\<lambda>c. c \<noteq> CHR ''/'') (rev path) in
      if CHR ''.'' \<in> set lastElem
      then CHR ''.'' # rev (takeWhile (\<lambda>c. c \<noteq> CHR ''.'') lastElem)
      else [])"

definition Join :: "(string \<Rightarrow> string) \<Rightarrow> string \<Rightarrow> string \<Rightarrow> string" where
  "Join Clean dir name = Clean (dir @ ''/'' @ name)"

text \<open>The verb \<open>%x\<close> on a byte slice: two lowercase hexadecimal digits for each byte.\<close>

definition hexDigit :: "nat \<Rightarrow> char" where
  "hexDigit d = ''0123456789abcdef'' ! d"

definition hexByte :: "8 word \<Rightarrow> string" where
  "hexByte b = [hexDigit (unat b div 16), hexDigit (unat b mod 16)]"

definition randomHex :: "OS \<Rightarrow> int \<Rightarrow> string + string" where
  "randomHex os n =
     (if n \<le> 0 then Inl errBadLength
      else
        (case randReadError os of
           Some e \<Rightarrow> Inl e
         | None \<Rightarrow> Inr (concat (map (\<lambda>i. hexByte (randBytes os i)) [0..<nat n]))))"

text \<open>
  \<open>io.Copy(out, reader)\<close>, where the reader is the stream itself or \<open>io.LimitReader\<close> with
  a limit: the bytes written, the number of bytes taken from the stream, and the error,
  if any. A limited reader ends after \<open>limit\<close> bytes (after none for a limit below 1) and
  does not read further. The copy moves blocks of at most 32 KiB; when writing fails, it
  stops at the first block, of which nothing is counted as written.
\<close>

definition io_Copy :: "OS \<Rightarrow> Reader \<Rightarrow> int option \<Rightarrow> string \<times> nat \<times> string option" where
  "io_Copy os r limit =
     (let avail = (case limit of None \<Rightarrow> content r | Some n \<Rightarrow> take (nat n) (content r));
          ended = (case limit of None \<Rightarrow> False | Some n \<Rightarrow> int (length (content r)) \<ge> n);
          rerr = (if ended then None else readError r)
      in (case writeError os of
            None \<Rightarrow> (avail, length avail, rerr)
          | Some e \<Rightarrow>
              (if avail = [] then ([], 0, rerr)
               else ([], length (take (32 * 1024) avail), Some e))))"

definition os_Remove :: "OS \<Rightarrow> string \<Rightarrow> OS" where
  "os_Remove os path =
     (case removeError os of
        Some e \<Rightarrow> os
      | None \<Rightarrow> os\<lparr>files := (files os)(path := None)\<rparr>)"

text \<open>
  \<open>SaveBookFile\<close> returns the saved file or the error, together with the operating system
  after the call and the number of bytes that were taken from the stream.
\<close>

definition SaveBookFile ::
  "(string \<Rightarrow> string) \<Rightarrow> OS \<Rightarrow> string \<Rightarrow> string \<Rightarrow> Reader \<Rightarrow> int
     \<Rightarrow> (string + SavedFile) \<times> OS \<times> nat" where
  "SaveBookFile Clean os baseDir originalName rd maxSize =
     (if baseDir = [] then (Inl errEmptyBaseDir, os, 0)
      else
        (case mkdirAllError os of
           Some e \<Rightarrow> (Inl (errMkdirPrefix @ e), os, 0)
         | None \<Rightarrow>
             (let ext = (if Ext originalName = [] then ''.bin'' else Ext originalName) in
              (case randomHex os 16 of
                 Inl e \<Rightarrow> (Inl (errNamePrefix @ e), os, 0)
               | Inr name \<Rightarrow>
                   (let filename = name @ ext;
                        fullPath = Join Clean baseDir filename
                    in (case createError os of
                          Some e \<Rightarrow> (Inl (errCreatePrefix @ e), os, 0)
                        | None \<Rightarrow>
                            (let limit = (if maxSize > 0 then Some (wrap64 (maxSize + 1))
                                          else None);
                                 copied = io_Copy os rd limit;
                                 written = fst copied;
                                 taken = fst (snd copied);
                                 n = int (length written);
                                 os1 = os\<lparr>files := (files os)(fullPath := Some written)\<rparr>
                             in (case snd (snd copied) of
                                   Some e \<Rightarrow>
                                     (Inl (errWritePrefix @ e), os_Remove os1 fullPath, taken)
                                 | None \<Rightarrow>
                                     (if maxSize > 0 \<and> n > maxSize
                                      then (Inl errTooLarge, os_Remove os1 fullPath, taken)
                                      else (Inr \<lparr>RelativePath = filename, SizeBytes = n\<rparr>,
                                            os1, taken))))))))))"

text \<open>The size ceiling of \<open>downloadAndSend\<close> and the message it sends when saving fails.\<close>

definition maxFileSize :: int where
  "maxFileSize = 50 * 1024 * 1024"

definition saveErrorMessage :: "string \<Rightarrow> string" where
  "saveErrorMessage err =
     (if Contains err tooLargePhrase then textFileTooLarge else textSaveError)"

text \<open>An operating system without files in which every call succeeds, a stream of
  exactly 50 MiB and one byte, a stream that breaks after three bytes, and a stream of
  three bytes.\<close>

definition quietOS :: OS where
  "quietOS = \<lparr>files = Map.empty, mkdirAllError = None, randReadError = None,
              randBytes = (\<lambda>i. word_of_nat (17 * i + 160)), createError = None,
              writeError = None, removeError = None\<rparr>"

definition oversizeStream :: Reader where
  "oversizeStream = \<lparr>content = replicate (50 * 1024 * 1024 + 1) (CHR ''x''), readError = None\<rparr>"

definition brokenStream :: Reader where
  "brokenStream = \<lparr>content = ''abc'', readError = Some ''unexpected EOF''\<rparr>"


section \<open>The library table (internal/db/store.go)\<close>

text \<open>
  The tables of \<open>migrate\<close>, as far as \<open>AddToLibrary\<close> depends on them: the keys of \<open>users\<close>
  (\<open>telegram_id\<close>) and of \<open>book_files\<close> (\<open>id\<close>), and the rows of \<open>user_library\<close> in the order of
  insertion. The primary key of \<open>user_library\<close> is the pair \<open>(user_id, book_file_id)\<close>.
\<close>

record LibraryRow =
  user_id :: int
  book_file_id :: int
  added_at :: string
  current_location :: "string option"

record Tables =
  users :: "int set"
  book_files :: "int set"
  user_library :: "LibraryRow list"

definition libraryKey :: "LibraryRow \<Rightarrow> int \<times> int" where
  "libraryKey r = (user_id r, book_file_id r)"

text \<open>
  The connection on which a statement runs: whether the statement fails before it is
  executed (database closed or busy, input or output error), and whether foreign keys are
  enforced on this connection (\<open>PRAGMA foreign_keys\<close> is a setting of the connection).
\<close>

record Conn =
  connError :: "string option"
  foreign_keys :: bool

datatype exec_error = DriverError string | ForeignKeyFailed

text \<open>
  \<open>AddToLibrary\<close> executes \<open>INSERT OR IGNORE INTO user_library (user_id, book_file_id) VALUES
  (?, ?)\<close>. A row with the same primary key makes the statement skip the insertion without
  an error; this is decided before the foreign keys are looked at. Otherwise, with
  foreign keys enforced, a missing user or file is an error, which \<open>OR IGNORE\<close> does not
  cover. Otherwise the row is inserted with the current time and no location. The result
  is the error (which the Go function wraps) or \<open>None\<close>, and the tables afterwards.
\<close>

definition AddToLibrary ::
  "Conn \<Rightarrow> Tables \<Rightarrow> string \<Rightarrow> int \<Rightarrow> int \<Rightarrow> exec_error option \<times> Tables" where
  "AddToLibrary conn db now userID fileID =
     (case connError conn of
        Some e \<Rightarrow> (Some (DriverError e), db)
      | None \<Rightarrow>
          (if (userID, fileID) \<in> set (map libraryKey (user_library db)) then (None, db)
           else if foreign_keys conn \<and> (userID \<notin> users db \<or> fileID \<notin> book_files db)
           then (Some ForeignKeyFailed, db)
           else (None, db\<lparr>user_library := user_library db @
                   [\<lparr>user_id = userID, book_file_id = fileID, added_at = now,
                     current_location = None\<rparr>]\<rparr>)))"

text \<open>A connection that enforces foreign keys, and tables with one user, one file and
  no library row.\<close>

definition strictConn :: Conn where
  "strictConn = \<lparr>connError = None, foreign_keys = True\<rparr>"

definition sampleTables :: Tables where
  "sampleTables = \<lparr>users = {5}, book_files = {9}, user_library = []\<rparr>"

section \<open>Pagination: auxiliary facts\<close>

lemma wrap64_id: "- (2 ^ 63) \<le> x \<Longrightarrow> x < 2 ^ 63 \<Longrightarrow> wrap64 x = x"
  by (simp add: wrap64_def)

lemma wrap64_sum_pred:
  assumes "0 < tot" "0 < ps" "tot + ps \<le> 2 ^ 63"
  shows "wrap64 (wrap64 (tot + ps) - 1) = tot + ps - 1"
proof (cases "tot + ps = 2 ^ 63")
  case True
  then show ?thesis by (simp add: wrap64_def)
next
  case False
  with assms have "tot + ps < 2 ^ 63" by simp
  with assms show ?thesis by (simp add: wrap64_id)
qed

lemma totalPages_pos:
  assumes "0 < tot" "0 < ps" "tot + ps \<le> 2 ^ 63"
  shows "totalPages tot ps = Inr ((tot + ps - 1) div ps)"
proof -
  let ?q = "(tot + ps - 1) div ps"
  have c: "0 \<le> ?q" using assms by (simp add: pos_imp_zdiv_nonneg_iff)
  have "?q \<le> (tot + ps - 1) div 1" using assms by (intro zdiv_mono2) auto
  then have d: "?q < 2 ^ 63" using assms by simp
  have "wrap64 ?q = ?q" using c d by (simp add: wrap64_id)
  then show ?thesis using assms c
    by (simp add: totalPages_def go_div_def wrap64_sum_pred)
qed

lemma pages_bounds:
  fixes tot ps :: int
  assumes "0 < ps"
  shows "((tot + ps - 1) div ps - 1) * ps < tot" and "tot \<le> (tot + ps - 1) div ps * ps"
proof -
  let ?a = "tot + ps - 1"
  have e: "?a div ps * ps = ?a - ?a mod ps" by (simp add: minus_mod_eq_div_mult)
  have m: "0 \<le> ?a mod ps" "?a mod ps < ps" using assms by simp_all
  have "(?a div ps - 1) * ps = ?a div ps * ps - ps" by (simp add: algebra_simps)
  then show "(?a div ps - 1) * ps < tot" using e m by linarith
  show "tot \<le> ?a div ps * ps" using e m by linarith
qed

lemma ceil_div_int:
  fixes tot ps :: int
  assumes "0 < ps"
  shows "\<lceil>real_of_int tot / real_of_int ps\<rceil> = (tot + ps - 1) div ps"
proof (rule ceiling_unique)
  let ?q = "(tot + ps - 1) div ps"
  have "real_of_int ((?q - 1) * ps) < real_of_int tot"
    using pages_bounds(1)[OF assms, of tot] by linarith
  then show "real_of_int ?q - 1 < real_of_int tot / real_of_int ps"
    using assms by (simp add: pos_less_divide_eq)
  have "real_of_int tot \<le> real_of_int (?q * ps)"
    using pages_bounds(2)[OF assms, of tot] by linarith
  then show "real_of_int tot / real_of_int ps \<le> real_of_int ?q"
    using assms by (simp add: pos_divide_le_eq)
qed

lemma take_drop_nth: "h \<le> length xs \<Longrightarrow> take (h - l) (drop l xs) = map ((!) xs) [l..<h]"
proof -
  assume h: "h \<le> length xs"
  have "take (h - l) (drop l (map ((!) xs) [0..<length xs])) = map ((!) xs) [l..<h]"
    using h by (cases "l \<le> h") (simp_all add: take_map drop_map take_upt)
  then show ?thesis by (simp add: map_nth)
qed

lemma clampPage_max_min:
  assumes "1 \<le> pages" "pages < 2 ^ 63"
  shows "clampPage p0 pages = max 0 (min p0 (pages - 1))"
  using assms by (auto simp: clampPage_def wrap64_id)

lemma buildPage_render:
  fixes ss :: sessions and chatID p0 :: int and s :: searchSession
  assumes s: "ss chatID = Some s" and ne: "books s \<noteq> []" and ps: "0 < pageSize s"
    and bound: "int (length (books s)) + pageSize s \<le> 2 ^ 63"
  defines "tot \<equiv> int (length (books s))"
  defines "pages \<equiv> (tot + pageSize s - 1) div pageSize s"
  defines "p \<equiv> max 0 (min p0 (pages - 1))"
  defines "lo \<equiv> p * pageSize s"
  defines "hi \<equiv> min tot ((p + 1) * pageSize s)"
  shows "buildPage ss chatID p0 =
           Inr ((pageText tot p pages,
                 map bookRow (map ((!) (books s)) [nat lo..<nat hi])
                   @ (if pages > 1 then [navRow p pages] else []), True),
                ss(chatID := Some (s\<lparr>page := p\<rparr>)))
       \<and> 1 \<le> pages \<and> pages \<le> tot \<and> 0 \<le> p \<and> p < pages
       \<and> 0 \<le> lo \<and> lo < hi \<and> hi \<le> tot"
proof -
  have tot: "0 < tot" using ne by (simp add: tot_def)
  have b1: "(pages - 1) * pageSize s < tot" and b2: "tot \<le> pages * pageSize s"
    unfolding pages_def using pages_bounds[OF ps, of tot] by simp_all
  have pg1: "1 \<le> pages"
  proof (rule ccontr)
    assume "\<not> 1 \<le> pages"
    then have "pages \<le> 0" by simp
    then have "pages * pageSize s \<le> 0" using ps by (simp add: mult_le_0_iff)
    with b2 tot show False by simp
  qed
  have "(pages - 1) * 1 \<le> (pages - 1) * pageSize s"
    using pg1 ps by (intro mult_left_mono) simp_all
  with b1 have pgt: "pages \<le> tot" by simp
  have pglt: "pages < 2 ^ 63" using pgt bound ps by (simp add: tot_def)
  have p0: "0 \<le> p" and plt: "p < pages" using pg1 by (simp_all add: p_def)
  have lo_le: "lo \<le> (pages - 1) * pageSize s"
    unfolding lo_def using plt ps by (intro mult_right_mono) simp_all
  have lo0: "0 \<le> lo" using p0 ps by (simp add: lo_def)
  have lolt: "lo < tot" using lo_le b1 by simp
  have hi_alt: "(p + 1) * pageSize s = lo + pageSize s" by (simp add: lo_def algebra_simps)
  have lohi: "lo < hi" using lolt ps by (simp add: hi_def hi_alt)
  have hitot: "hi \<le> tot" by (simp add: hi_def)
  have tp: "totalPages tot (pageSize s) = Inr pages"
    unfolding pages_def using tot ps bound by (intro totalPages_pos) (simp_all add: tot_def)
  have cp: "clampPage p0 pages = p"
    using clampPage_max_min[OF pg1 pglt] by (simp add: p_def)
  have w1: "wrap64 (p * pageSize s) = lo"
    using lo0 lolt bound ps by (simp add: lo_def[symmetric] wrap64_id tot_def)
  have w2: "wrap64 (lo + pageSize s) = lo + pageSize s"
    using lo0 lolt bound ps by (intro wrap64_id) (simp_all add: tot_def)
  have e: "(if lo + pageSize s > tot then tot else lo + pageSize s) = hi"
    by (simp add: hi_def hi_alt min_def)
  have sl: "go_slice (books s) lo hi = Inr (map ((!) (books s)) [nat lo..<nat hi])"
    using lo0 lohi hitot by (simp add: go_slice_def tot_def take_drop_nth)
  have "buildPage ss chatID p0 =
           Inr ((pageText tot p pages,
                 map bookRow (map ((!) (books s)) [nat lo..<nat hi])
                   @ (if pages > 1 then [navRow p pages] else []), True),
                ss(chatID := Some (s\<lparr>page := p\<rparr>)))"
    using ne by (simp add: buildPage_def s tot_def[symmetric] tp cp w1 w2 e sl Let_def cong del: if_weak_cong)
  then show ?thesis using pg1 pgt p0 plt lo0 lohi hitot by simp
qed

text \<open>
  Claim C1. For a chat with a stored, non-empty session and any requested page index,
  \<open>buildPage\<close> computes \<open>pages = ceil(count / pageSize)\<close> (and \<open>totalPages\<close> gives 0
  for a count of 0), clamps the requested page into \<open>[0, pages - 1]\<close> (\<open>clampPage\<close> gives 0
  when there are no pages), and renders exactly the items with indices in
  \<open>[page * pageSize, min(count, (page + 1) * pageSize))\<close>, a non-empty range inside
  \<open>[0, count)\<close>; the clamped page is written back to the session. The bound on the
  count keeps \<open>count + pageSize - 1\<close> inside Go's 64-bit \<open>int\<close>.
\<close>

theorem buildPage_window:
  fixes ss :: sessions and chatID p0 :: int and s :: searchSession
  assumes a1: "ss chatID = Some s" and a2: "books s \<noteq> []" and a3: "0 < pageSize s"
    and a4: "int (length (books s)) + pageSize s \<le> 2 ^ 63"
  defines "cnt \<equiv> int (length (books s))"
  defines "pages \<equiv> \<lceil>real_of_int cnt / real_of_int (pageSize s)\<rceil>"
  defines "p \<equiv> max 0 (min p0 (pages - 1))"
  defines "lo \<equiv> p * pageSize s"
  defines "hi \<equiv> min cnt ((p + 1) * pageSize s)"
  shows "totalPages cnt (pageSize s) = Inr pages \<and> totalPages 0 (pageSize s) = Inr 0
       \<and> clampPage p0 pages = p \<and> clampPage p0 0 = 0
       \<and> 0 \<le> lo \<and> lo < hi \<and> hi \<le> cnt
       \<and> buildPage ss chatID p0 =
           Inr ((pageText cnt p pages,
                 map bookRow (map ((!) (books s)) [nat lo..<nat hi])
                   @ (if pages > 1 then [navRow p pages] else []), True),
                ss(chatID := Some (s\<lparr>page := p\<rparr>)))"
proof -
  have pg: "pages = (cnt + pageSize s - 1) div pageSize s"
    unfolding pages_def using a3 by (rule ceil_div_int)
  note r = buildPage_render[of ss chatID s p0, OF a1 a2 a3 a4]
  have tp: "totalPages cnt (pageSize s) = Inr pages"
    unfolding pg using a2 a3 a4 by (intro totalPages_pos) (simp_all add: cnt_def)
  have cp: "clampPage p0 pages = p"
    unfolding p_def pg cnt_def using r a3 a4 by (intro clampPage_max_min) simp_all
  have z: "totalPages 0 (pageSize s) = Inr 0" "clampPage p0 0 = 0"
    by (simp_all add: totalPages_def clampPage_def)
  show ?thesis
    using r tp cp z unfolding hi_def lo_def p_def pg cnt_def by simp
qed

text \<open>The example of the specification: 25 items, page size 10, page 5 requested: page 2
  with items 20 to 24.\<close>

theorem buildPage_window_witness:
  "buildPage sampleSessions 7 5 =
     Inr ((pageText 25 2 3, map bookRow (map sampleBook [20..<25]) @ [navRow 2 3], True),
          sampleSessions(7 := Some \<lparr>books = map sampleBook [0..<25], page = 2, pageSize = 10\<rparr>))"
proof -
  let ?s = "\<lparr>books = map sampleBook [0..<25], page = 0, pageSize = 10\<rparr>"
  have h: "sampleSessions 7 = Some ?s"
    by (simp add: sampleSessions_def storeSession_def defaultPageSize_def)
  have m: "map ((!) (map sampleBook [0..<25])) [20..<25] = map sampleBook [20..<25]"
    by (rule map_cong) (auto simp del: upt.simps map_upt_Suc)
  show ?thesis
    using buildPage_window[of sampleSessions 7 ?s 5] h m by simp
qed

text \<open>
  Claim C7. For a page rendered from a non-empty session, the keyboard is the item rows,
  followed, when there is more than one page, by one navigation row: a "previous" button
  exactly when \<open>page > 0\<close>, the indicator \<open>page + 1 / pages\<close>, and a "next" button exactly
  when \<open>page < pages - 1\<close>. With at most one page there is no navigation row.
\<close>

theorem buildPage_navigation:
  fixes ss :: sessions and chatID p0 :: int and s :: searchSession
  assumes a1: "ss chatID = Some s" and a2: "books s \<noteq> []" and a3: "0 < pageSize s"
    and a4: "int (length (books s)) + pageSize s \<le> 2 ^ 63"
  defines "cnt \<equiv> int (length (books s))"
  defines "pages \<equiv> \<lceil>real_of_int cnt / real_of_int (pageSize s)\<rceil>"
  defines "p \<equiv> max 0 (min p0 (pages - 1))"
  defines "itemRows \<equiv> map bookRow (map ((!) (books s))
             [nat (p * pageSize s)..<nat (min cnt ((p + 1) * pageSize s))])"
  defines "previous \<equiv> \<lparr>Text = arrow_left, CallbackData = ''page:'' @ fmt_d (p - 1)\<rparr>"
  defines "indicator \<equiv> \<lparr>Text = bullet @ '' '' @ fmt_d (p + 1) @ ''/'' @ fmt_d pages @ '' '' @ bullet,
             CallbackData = ''page:'' @ fmt_d p\<rparr>"
  defines "next \<equiv> \<lparr>Text = arrow_right, CallbackData = ''page:'' @ fmt_d (p + 1)\<rparr>"
  shows "\<exists>text ss'. buildPage ss chatID p0 =
           Inr ((text,
                 (if pages \<le> 1 then itemRows
                  else itemRows @ [(if p > 0 then [previous] else []) @ [indicator]
                                   @ (if p < pages - 1 then [next] else [])]),
                 True), ss')"
proof -
  have pg: "pages = (cnt + pageSize s - 1) div pageSize s"
    unfolding pages_def using a3 by (rule ceil_div_int)
  note r = buildPage_render[of ss chatID s p0, OF a1 a2 a3 a4, folded cnt_def, folded pg,
      folded p_def]
  have b: "1 \<le> pages" "pages \<le> cnt" "0 \<le> p" "p < pages" using r by simp_all
  have c: "cnt < 2 ^ 63" using a3 a4 by (simp add: cnt_def)
  have w: "wrap64 (p + 1) = p + 1" "0 < p \<Longrightarrow> wrap64 (p - 1) = p - 1"
      "wrap64 (pages - 1) = pages - 1"
    using b c by (simp_all add: wrap64_id)
  have n: "navRow p pages = (if p > 0 then [previous] else []) @ [indicator]
                                   @ (if p < pages - 1 then [next] else [])"
    by (simp add: w(2) navRow_def prevButton_def centerButton_def nextButton_def
        NewInlineKeyboardButtonData_def previous_def indicator_def next_def w(1,3) cbPagePrefix_def)
  show ?thesis using r n b unfolding itemRows_def by auto
qed

text \<open>25 items, page size 10: page 0 has the indicator and "next" only, page 2 has
  "previous" and the indicator only.\<close>

theorem buildPage_navigation_witness:
  "(\<exists>text ss'. buildPage sampleSessions 7 0 =
      Inr ((text, map bookRow (map sampleBook [0..<10])
              @ [[\<lparr>Text = bullet @ '' 1/3 '' @ bullet, CallbackData = ''page:0''\<rparr>,
                  \<lparr>Text = arrow_right, CallbackData = ''page:1''\<rparr>]], True), ss'))
 \<and> (\<exists>text ss'. buildPage sampleSessions 7 2 =
      Inr ((text, map bookRow (map sampleBook [20..<25])
              @ [[\<lparr>Text = arrow_left, CallbackData = ''page:1''\<rparr>,
                  \<lparr>Text = bullet @ '' 3/3 '' @ bullet, CallbackData = ''page:2''\<rparr>]], True), ss'))"
proof -
  let ?s = "\<lparr>books = map sampleBook [0..<25], page = 0, pageSize = 10\<rparr>"
  have h: "sampleSessions 7 = Some ?s"
    by (simp add: sampleSessions_def storeSession_def defaultPageSize_def)
  have m: "map ((!) (map sampleBook [0..<25])) [20..<25] = map sampleBook [20..<25]"
     "map ((!) (map sampleBook [0..<25])) [0..<10] = map sampleBook [0..<10]"
    by (rule map_cong; auto simp del: upt.simps map_upt_Suc)+
  have d: "fmt_d 0 = ''0''" "fmt_d 1 = ''1''" "fmt_d 2 = ''2''" "fmt_d 3 = ''3''"
    by (simp_all add: fmt_d_def dec_digits.simps digit_char_def)
  show ?thesis
    using buildPage_navigation[of sampleSessions 7 ?s 0]
      buildPage_navigation[of sampleSessions 7 ?s 2] h m d by simp
qed

section \<open>Catalog search: retries\<close>









section \<open>Format buttons: the fallback set\<close>

lemma ToUpper_common:
  "ToUpper U ''epub'' = ''EPUB''" "ToUpper U ''fb2'' = ''FB2''" "ToUpper U ''pdf'' = ''PDF''"
  by (simp_all add: ToUpper_def isASCII_def asciiUpper_def lowerLetters_def upperLetters_def)

text \<open>
  Claim C6, as stated, fails: without formats the three fallback buttons are put into one
  row, not into one row each.
\<close>

theorem fallback_rows_not_one_per_row:
  "sendBookDetails_rows asciiOnly ''42'' [] =
     Some [[\<lparr>Text = ''EPUB'', CallbackData = ''dl:42:epub''\<rparr>,
            \<lparr>Text = ''FB2'', CallbackData = ''dl:42:fb2''\<rparr>,
            \<lparr>Text = ''PDF'', CallbackData = ''dl:42:pdf''\<rparr>]]
   \<and> sendBookDetails_rows asciiOnly ''42'' [] \<noteq>
     Some [[\<lparr>Text = ''EPUB'', CallbackData = ''dl:42:epub''\<rparr>],
           [\<lparr>Text = ''FB2'', CallbackData = ''dl:42:fb2''\<rparr>],
           [\<lparr>Text = ''PDF'', CallbackData = ''dl:42:pdf''\<rparr>]]"
  by (simp add: sendBookDetails_rows_def commonFormats_def ToUpper_common
      NewInlineKeyboardButtonData_def cbDownloadPrefix_def)

text \<open>
  Claim C6, amended. Whenever the detail fetch returns no format, the keyboard is exactly
  the fixed set epub, fb2, pdf, with the uppercase labels EPUB, FB2, PDF and one button
  each, all three in a single row.
\<close>

theorem fallback_rows_single_row:
  "sendBookDetails_rows U bookID [] =
     Some [[\<lparr>Text = ''EPUB'', CallbackData = ''dl:'' @ bookID @ '':epub''\<rparr>,
            \<lparr>Text = ''FB2'', CallbackData = ''dl:'' @ bookID @ '':fb2''\<rparr>,
            \<lparr>Text = ''PDF'', CallbackData = ''dl:'' @ bookID @ '':pdf''\<rparr>]]"
  by (simp add: sendBookDetails_rows_def commonFormats_def ToUpper_common
      NewInlineKeyboardButtonData_def cbDownloadPrefix_def)

section \<open>Format buttons: order and layout\<close>
















section \<open>Format buttons: the text of a button\<close>
















text \<open>
  A label with a Cyrillic unit: \<open>fb2 1.2\<close> followed by the two Cyrillic letters of the unit
  and a full stop. The pattern lists the Cyrillic units, but its closing \<open>\b\<close> is a boundary
  between ASCII word characters and other bytes, and a Cyrillic letter is not an ASCII
  word character: the unit is found only when a Latin letter, a digit or an underscore
  follows it. Here the button has no size.
\<close>

lemma formatButtonText_cyrillic_unit:
  "formatButtonText asciiOnly
     \<lparr>Path = ''fb2'', Label = ''fb2 1.2 '' @ [CHR 0xD0, CHR 0x9C, CHR 0xD0, CHR 0xB1] @ ''.''\<rparr>
   = ''FB2''"
  by code_simp


section \<open>The callback dispatcher: acknowledgement\<close>

lemma prefixes_exclusive:
  "HasPrefix d cbPagePrefix \<Longrightarrow> \<not> HasPrefix d cbDownloadPrefix"
  by (cases d) (auto simp: cbPagePrefix_def cbDownloadPrefix_def)

text \<open>
  Where the dispatcher does what claim C4 says: for a callback that has a message and a
  non-empty payload, other than a download payload without the separator, the callback
  is answered first and exactly one further step follows, the action of the branch (or,
  for a page payload that is not a number, the rejection message).
\<close>

lemma handleCallback_acknowledges_first:
  assumes msg: "cbMessage cb = Some (chatID, messageID)" and ne: "cbData cb \<noteq> []"
    and wf: "HasPrefix (cbData cb) cbDownloadPrefix \<longrightarrow>
               CHR '':'' \<in> set (TrimPrefix (cbData cb) cbDownloadPrefix)"
  shows "\<exists>t act. handleCallback cb = [AnswerCallback (cbID cb) t, act] \<and> \<not> isAnswer act"
  using assms
  by (auto simp: handleCallback_def Let_def SplitN2_def isAnswer_def prefixes_exclusive
      split: option.splits)

text \<open>An empty payload is ignored: nothing is done.\<close>

lemma handleCallback_ignores:
  "cbData cb = [] \<Longrightarrow> handleCallback cb = []"
  by (auto simp: handleCallback_def Let_def cbPagePrefix_def cbDownloadPrefix_def
      cbBookPrefix_def split: option.splits)

text \<open>
  Claim C4 against the code: the dispatcher is to answer the callback before anything
  else, also before it rejects a malformed payload. For the download payload \<open>dl:\<close>, which
  lacks the item and the format, the dispatcher sends the rejection message and never
  answers the callback. The page branch, for its malformed payload \<open>page:x\<close>, answers the
  callback first and rejects then.
\<close>

theorem handleCallback_malformed_download_not_acknowledged:
  "handleCallback \<lparr>cbID = ''q1'', cbMessage = Some (7, 100), cbData = ''dl:'',
       cbFromID = 5, cbFromUserName = ''reader''\<rparr>
     = [SendMessage 7 textCannotParseFormat]
   \<and> handleCallback \<lparr>cbID = ''q1'', cbMessage = Some (7, 100), cbData = ''page:x'',
       cbFromID = 5, cbFromUserName = ''reader''\<rparr>
     = [AnswerCallback ''q1'' textPaging, SendMessage 7 textCannotSwitchPage]"
  by (simp add: handleCallback_def Let_def cbPagePrefix_def cbDownloadPrefix_def
      TrimPrefix_def SplitN2_def Atoi_def)

section \<open>Saving a downloaded file: the size ceiling\<close>

lemma io_Copy_taken: "fst (snd (io_Copy os rd (Some n))) \<le> nat n"
  by (auto simp: io_Copy_def Let_def split: option.splits)

lemma io_Copy_oversize:
  assumes "writeError os = None" "0 \<le> m" "m < int (length (content rd))"
  shows "io_Copy os rd (Some (m + 1)) = (take (nat (m + 1)) (content rd), nat (m + 1), None)"
  using assms by (auto simp: io_Copy_def Let_def)

lemma io_Copy_fits:
  assumes "writeError os = None" "0 \<le> m" "int (length (content rd)) \<le> m"
  shows "io_Copy os rd (Some (m + 1)) = (content rd, length (content rd), readError rd)"
  using assms by (auto simp: io_Copy_def Let_def)

lemma SaveBookFile_taken:
  assumes "0 < maxSize" "maxSize < 2 ^ 63 - 1"
  shows "snd (snd (SaveBookFile Clean os baseDir originalName rd maxSize)) \<le> nat (maxSize + 1)"
proof -
  have w: "wrap64 (maxSize + 1) = maxSize + 1" using assms by (intro wrap64_id) auto
  show ?thesis
    using assms io_Copy_taken[of os rd "maxSize + 1"]
    by (auto simp: SaveBookFile_def Let_def w split: option.splits sum.splits)
qed

lemma SaveBookFile_oversize:
  assumes "0 < maxSize" "maxSize < 2 ^ 63 - 1"
    and "baseDir \<noteq> []" "mkdirAllError os = None" "randomHex os 16 = Inr name"
      "createError os = None" "writeError os = None" "removeError os = None"
    and "maxSize < int (length (content rd))"
  shows "SaveBookFile Clean os baseDir originalName rd maxSize =
           (Inl errTooLarge,
            os\<lparr>files := (files os)(Join Clean baseDir
                (name @ (if Ext originalName = [] then ''.bin'' else Ext originalName)) := None)\<rparr>,
            nat (maxSize + 1))"
proof -
  have w: "wrap64 (maxSize + 1) = maxSize + 1" using assms by (intro wrap64_id) auto
  have c: "io_Copy os rd (Some (maxSize + 1)) =
             (take (nat (maxSize + 1)) (content rd), nat (maxSize + 1), None)"
    using assms by (intro io_Copy_oversize) auto
  have l: "int (length (take (nat (maxSize + 1)) (content rd))) = maxSize + 1"
    using assms by simp
  show ?thesis
    using assms(1,3-8) l
    by (simp add: SaveBookFile_def Let_def w c os_Remove_def)
qed

lemma SaveBookFile_read_error:
  assumes "0 < maxSize" "maxSize < 2 ^ 63 - 1"
    and "baseDir \<noteq> []" "mkdirAllError os = None" "randomHex os 16 = Inr name"
      "createError os = None" "writeError os = None" "removeError os = None"
    and "int (length (content rd)) \<le> maxSize" "readError rd = Some e"
  shows "SaveBookFile Clean os baseDir originalName rd maxSize =
           (Inl (errWritePrefix @ e),
            os\<lparr>files := (files os)(Join Clean baseDir
                (name @ (if Ext originalName = [] then ''.bin'' else Ext originalName)) := None)\<rparr>,
            length (content rd))"
proof -
  have w: "wrap64 (maxSize + 1) = maxSize + 1" using assms by (intro wrap64_id) auto
  have c: "io_Copy os rd (Some (maxSize + 1)) = (content rd, length (content rd), readError rd)"
    using assms by (intro io_Copy_fits) auto
  show ?thesis
    using assms(1,3-8,10)
    by (simp add: SaveBookFile_def Let_def w c os_Remove_def)
qed

lemma SaveBookFile_fits:
  assumes "0 < maxSize" "maxSize < 2 ^ 63 - 1"
    and "baseDir \<noteq> []" "mkdirAllError os = None" "randomHex os 16 = Inr name"
      "createError os = None" "writeError os = None"
    and "int (length (content rd)) \<le> maxSize" "readError rd = None"
  shows "SaveBookFile Clean os baseDir originalName rd maxSize =
           (Inr \<lparr>RelativePath = name @ (if Ext originalName = [] then ''.bin''
                                          else Ext originalName),
                 SizeBytes = int (length (content rd))\<rparr>,
            os\<lparr>files := (files os)(Join Clean baseDir
                (name @ (if Ext originalName = [] then ''.bin'' else Ext originalName))
                  := Some (content rd))\<rparr>,
            length (content rd))"
proof -
  have w: "wrap64 (maxSize + 1) = maxSize + 1" using assms by (intro wrap64_id) auto
  have c: "io_Copy os rd (Some (maxSize + 1)) = (content rd, length (content rd), readError rd)"
    using assms by (intro io_Copy_fits) auto
  show ?thesis
    using assms(1,3-9)
    by (simp add: SaveBookFile_def Let_def w c)
qed

lemma saveErrorMessage_texts:
  "saveErrorMessage errTooLarge = textFileTooLarge" "textFileTooLarge \<noteq> textSaveError"
  by code_simp+

lemma randomHex_quietOS: "randomHex quietOS 16 = Inr ''a0b1c2d3e4f5061728394a5b6c7d8e9f''"
  by code_simp

lemma saveErrorMessage_unexpected_EOF:
  "saveErrorMessage (errWritePrefix @ ''unexpected EOF'') = textSaveError"
  by code_simp

text \<open>
  Claim C2. Let the size ceiling \<open>maxSize\<close> be positive (and below the largest 64-bit
  integer, so that \<open>maxSize + 1\<close> does not wrap). Whatever happens, saving takes at most
  \<open>maxSize + 1\<close> bytes from the stream. When the directory, the name, the file and the
  writing and removing succeed, then: for a stream longer than the ceiling the result is
  the error \<open>errTooLarge\<close>, exactly \<open>maxSize + 1\<close> bytes have been taken, and the file that
  was written is removed again, so the files are those from before the call without the
  new path; for a stream that fits and then fails, the result is the wrapped read error
  and the file is removed as well; and a stream that fits and ends is saved with its
  length. The message for \<open>errTooLarge\<close> is \<open>textFileTooLarge\<close>, the message for every error
  whose text lacks the phrase \<open>tooLargePhrase\<close> is \<open>textSaveError\<close>, and the two messages
  differ.
\<close>

theorem SaveBookFile_size_ceiling:
  assumes "0 < maxSize" and "maxSize < 2 ^ 63 - 1"
  shows "snd (snd (SaveBookFile Clean os baseDir originalName rd maxSize)) \<le> nat (maxSize + 1)
    \<and> (baseDir \<noteq> [] \<and> mkdirAllError os = None \<and> randomHex os 16 = Inr name
         \<and> createError os = None \<and> writeError os = None \<and> removeError os = None \<longrightarrow>
        (maxSize < int (length (content rd)) \<longrightarrow>
           SaveBookFile Clean os baseDir originalName rd maxSize =
             (Inl errTooLarge,
              os\<lparr>files := (files os)(Join Clean baseDir
                  (name @ (if Ext originalName = [] then ''.bin'' else Ext originalName))
                    := None)\<rparr>,
              nat (maxSize + 1)))
      \<and> (int (length (content rd)) \<le> maxSize \<and> readError rd = Some e \<longrightarrow>
           SaveBookFile Clean os baseDir originalName rd maxSize =
             (Inl (errWritePrefix @ e),
              os\<lparr>files := (files os)(Join Clean baseDir
                  (name @ (if Ext originalName = [] then ''.bin'' else Ext originalName))
                    := None)\<rparr>,
              length (content rd)))
      \<and> (int (length (content rd)) \<le> maxSize \<and> readError rd = None \<longrightarrow>
           SaveBookFile Clean os baseDir originalName rd maxSize =
             (Inr \<lparr>RelativePath = name @ (if Ext originalName = [] then ''.bin''
                                            else Ext originalName),
                   SizeBytes = int (length (content rd))\<rparr>,
              os\<lparr>files := (files os)(Join Clean baseDir
                  (name @ (if Ext originalName = [] then ''.bin'' else Ext originalName))
                    := Some (content rd))\<rparr>,
              length (content rd))))
    \<and> saveErrorMessage errTooLarge = textFileTooLarge
    \<and> (\<forall>err. \<not> Contains err tooLargePhrase \<longrightarrow> saveErrorMessage err = textSaveError)
    \<and> textFileTooLarge \<noteq> textSaveError"
proof -
  have a: "snd (snd (SaveBookFile Clean os baseDir originalName rd maxSize)) \<le> nat (maxSize + 1)"
    using assms by (rule SaveBookFile_taken)
  have b: "\<forall>err. \<not> Contains err tooLargePhrase \<longrightarrow> saveErrorMessage err = textSaveError"
    by (simp add: saveErrorMessage_def)
  show ?thesis
    using a b saveErrorMessage_texts
      SaveBookFile_oversize[OF assms, of baseDir os name rd Clean originalName]
      SaveBookFile_read_error[OF assms, of baseDir os name rd e Clean originalName]
      SaveBookFile_fits[OF assms, of baseDir os name rd Clean originalName]
    by blast
qed

text \<open>
  The stream of exactly 50 MiB and one byte under the ceiling of 50 MiB: the oversize
  error, 50 MiB and one byte taken, no file afterwards, and the oversize message. The
  stream that breaks after three bytes: the wrapped read error, no file afterwards, and
  the other message.
\<close>

theorem SaveBookFile_size_ceiling_witness:
  "SaveBookFile (\<lambda>p. p) quietOS ''storage'' ''book.epub'' oversizeStream maxFileSize
     = (Inl errTooLarge, quietOS, 50 * 1024 * 1024 + 1)
   \<and> saveErrorMessage errTooLarge = textFileTooLarge
   \<and> SaveBookFile (\<lambda>p. p) quietOS ''storage'' ''book.epub'' brokenStream maxFileSize
     = (Inl (errWritePrefix @ ''unexpected EOF''), quietOS, 3)
   \<and> saveErrorMessage (errWritePrefix @ ''unexpected EOF'') = textSaveError
   \<and> textFileTooLarge \<noteq> textSaveError"
proof -
  have q: "mkdirAllError quietOS = None" "createError quietOS = None"
    "writeError quietOS = None" "removeError quietOS = None"
    "quietOS\<lparr>files := (files quietOS)(p := None)\<rparr> = quietOS" for p
    by (simp_all add: quietOS_def)
  have m: "0 < maxFileSize" "maxFileSize < 2 ^ 63 - 1" by (simp_all add: maxFileSize_def)
  have big: "maxFileSize < int (length (content oversizeStream))"
    "nat (maxFileSize + 1) = 50 * 1024 * 1024 + 1"
    by (simp_all add: maxFileSize_def oversizeStream_def)
  have small: "int (length (content brokenStream)) \<le> maxFileSize"
    "readError brokenStream = Some ''unexpected EOF''" "length (content brokenStream) = 3"
    by (simp_all add: maxFileSize_def brokenStream_def)
  show ?thesis
    using SaveBookFile_size_ceiling[OF m, of "\<lambda>p. p" quietOS "''storage''" "''book.epub''"
        oversizeStream "''a0b1c2d3e4f5061728394a5b6c7d8e9f''" "''unexpected EOF''"]
      SaveBookFile_size_ceiling[OF m, of "\<lambda>p. p" quietOS "''storage''" "''book.epub''"
        brokenStream "''a0b1c2d3e4f5061728394a5b6c7d8e9f''" "''unexpected EOF''"]
      q randomHex_quietOS big small saveErrorMessage_unexpected_EOF
    by simp
qed


section \<open>Saving a downloaded file: the stored name\<close>









section \<open>The library table: linking twice\<close>

lemma AddToLibrary_present:
  assumes "connError conn = None"
    and "(userID, fileID) \<in> set (map libraryKey (user_library db))"
  shows "AddToLibrary conn db now userID fileID = (None, db)"
  using assms by (simp add: AddToLibrary_def)

lemma AddToLibrary_absent:
  assumes "connError conn = None"
    and "(userID, fileID) \<notin> set (map libraryKey (user_library db))"
    and "foreign_keys conn \<longrightarrow> userID \<in> users db \<and> fileID \<in> book_files db"
  shows "AddToLibrary conn db now userID fileID =
           (None, db\<lparr>user_library := user_library db @
              [\<lparr>user_id = userID, book_file_id = fileID, added_at = now,
                current_location = None\<rparr>]\<rparr>)"
  using assms by (auto simp: AddToLibrary_def)

text \<open>With foreign keys enforced, a pair whose user or file is missing is not linked:
  the call fails, and so does every repetition.\<close>

lemma AddToLibrary_foreign_key:
  assumes "connError conn = None" and "foreign_keys conn"
    and "(userID, fileID) \<notin> set (map libraryKey (user_library db))"
    and "userID \<notin> users db \<or> fileID \<notin> book_files db"
  shows "AddToLibrary conn db now userID fileID = (Some ForeignKeyFailed, db)"
  using assms by (auto simp: AddToLibrary_def)

lemma filter_key_absent:
  "k \<notin> set (map libraryKey rows) \<Longrightarrow> filter (\<lambda>r. libraryKey r = k) rows = []"
  by (induction rows) auto

lemma filter_key_distinct:
  "distinct (map libraryKey rows) \<Longrightarrow> k \<in> set (map libraryKey rows)
     \<Longrightarrow> length (filter (\<lambda>r. libraryKey r = k) rows) = 1"
proof (induction rows)
  case Nil
  then show ?case by simp
next
  case (Cons r rows)
  show ?case
  proof (cases "libraryKey r = k")
    case True
    then have "k \<notin> set (map libraryKey rows)" using Cons.prems(1) by auto
    then show ?thesis using True by (simp add: filter_key_absent)
  next
    case False
    then show ?thesis using Cons by auto
  qed
qed

text \<open>
  Claim C9. Let the rows of the library have distinct primary keys (the invariant of the
  table), let both calls reach the database, and let the user and the file exist if the
  connection of the first call enforces foreign keys. Then the first call succeeds; the
  second call with the same pair, at any later time and on any connection that reaches
  the database, succeeds too and changes nothing; afterwards exactly one row has this
  pair as its key, the keys are still distinct, and the rows of the other pairs are
  those from before.
\<close>

theorem AddToLibrary_idempotent:
  assumes "distinct (map libraryKey (user_library db))"
    and "connError c1 = None" and "connError c2 = None"
    and "foreign_keys c1 \<longrightarrow> userID \<in> users db \<and> fileID \<in> book_files db"
  shows "\<exists>db1. AddToLibrary c1 db t1 userID fileID = (None, db1)
           \<and> AddToLibrary c2 db1 t2 userID fileID = (None, db1)
           \<and> length (filter (\<lambda>r. libraryKey r = (userID, fileID)) (user_library db1)) = 1
           \<and> distinct (map libraryKey (user_library db1))
           \<and> filter (\<lambda>r. libraryKey r \<noteq> (userID, fileID)) (user_library db1)
               = filter (\<lambda>r. libraryKey r \<noteq> (userID, fileID)) (user_library db)
           \<and> users db1 = users db \<and> book_files db1 = book_files db"
proof (cases "(userID, fileID) \<in> set (map libraryKey (user_library db))")
  case True
  have 1: "AddToLibrary c1 db t1 userID fileID = (None, db)"
    using assms(2) True by (rule AddToLibrary_present)
  have 2: "AddToLibrary c2 db t2 userID fileID = (None, db)"
    using assms(3) True by (rule AddToLibrary_present)
  have 3: "length (filter (\<lambda>r. libraryKey r = (userID, fileID)) (user_library db)) = 1"
    using assms(1) True by (rule filter_key_distinct)
  show ?thesis using 1 2 3 assms(1) by simp
next
  case False
  let ?row = "\<lparr>user_id = userID, book_file_id = fileID, added_at = t1,
                current_location = None\<rparr>"
  let ?db1 = "db\<lparr>user_library := user_library db @ [?row]\<rparr>"
  have k: "libraryKey ?row = (userID, fileID)" by (simp add: libraryKey_def)
  have 1: "AddToLibrary c1 db t1 userID fileID = (None, ?db1)"
    using assms(2) False assms(4) by (rule AddToLibrary_absent)
  have p: "(userID, fileID) \<in> set (map libraryKey (user_library ?db1))"
    using k by simp
  have 2: "AddToLibrary c2 ?db1 t2 userID fileID = (None, ?db1)"
    using assms(3) p by (rule AddToLibrary_present)
  have d: "distinct (map libraryKey (user_library ?db1))"
    using assms(1) False k by simp
  have 3: "length (filter (\<lambda>r. libraryKey r = (userID, fileID)) (user_library ?db1)) = 1"
    using d p by (rule filter_key_distinct)
  have 4: "filter (\<lambda>r. libraryKey r \<noteq> (userID, fileID)) (user_library ?db1)
               = filter (\<lambda>r. libraryKey r \<noteq> (userID, fileID)) (user_library db)"
    using k by simp
  show ?thesis using 1 2 3 4 d by simp
qed

text \<open>User 5 links file 9 twice: one row, that of the first call.\<close>

theorem AddToLibrary_idempotent_witness:
  "AddToLibrary strictConn sampleTables ''2024-01-01 10:00:00'' 5 9
     = (None, sampleTables\<lparr>user_library :=
          [\<lparr>user_id = 5, book_file_id = 9, added_at = ''2024-01-01 10:00:00'',
            current_location = None\<rparr>]\<rparr>)
   \<and> AddToLibrary strictConn (sampleTables\<lparr>user_library :=
          [\<lparr>user_id = 5, book_file_id = 9, added_at = ''2024-01-01 10:00:00'',
            current_location = None\<rparr>]\<rparr>) ''2024-01-01 10:00:07'' 5 9
     = (None, sampleTables\<lparr>user_library :=
          [\<lparr>user_id = 5, book_file_id = 9, added_at = ''2024-01-01 10:00:00'',
            current_location = None\<rparr>]\<rparr>)
   \<and> length (filter (\<lambda>r. libraryKey r = (5, 9))
        [\<lparr>user_id = 5, book_file_id = 9, added_at = ''2024-01-01 10:00:00'',
          current_location = None\<rparr>]) = 1"
proof -
  have h: "distinct (map libraryKey (user_library sampleTables))"
    "connError strictConn = None"
    "foreign_keys strictConn \<longrightarrow> 5 \<in> users sampleTables \<and> 9 \<in> book_files sampleTables"
    by (simp_all add: sampleTables_def strictConn_def)
  have f: "AddToLibrary strictConn sampleTables ''2024-01-01 10:00:00'' 5 9
     = (None, sampleTables\<lparr>user_library :=
          [\<lparr>user_id = 5, book_file_id = 9, added_at = ''2024-01-01 10:00:00'',
            current_location = None\<rparr>]\<rparr>)"
    by (simp add: AddToLibrary_def sampleTables_def strictConn_def)
  show ?thesis
    using AddToLibrary_idempotent[OF h(1) h(2) h(2) h(3),
        of "''2024-01-01 10:00:00''" "''2024-01-01 10:00:07''"] f
    by (auto simp: libraryKey_def)
qed

end
